theory Spec2Isabelle
  imports Complex_Main
begin

section \<open>Host-language values\<close>

text \<open>
  A JavaScript string is a sequence of UTF-16 code units; a code unit is modelled by its
  number. Literals of the source are written as HOL strings and converted with \<open>js\<close>.
  A value used as a condition is truthy when it is neither \<open>null\<close>/\<open>undefined\<close> nor the
  empty string.
\<close>

type_synonym js_string = "nat list"

definition js :: "string \<Rightarrow> js_string" where
  "js s = map of_char s"

definition truthy :: "js_string option \<Rightarrow> bool" where
  "truthy v = (case v of None \<Rightarrow> False | Some s \<Rightarrow> s \<noteq> [])"

text \<open>
  \<^verbatim>\<open>String.prototype.trim\<close> strips the ECMAScript WhiteSpace and LineTerminator code
  units from both ends.
\<close>

definition is_white_space :: "nat \<Rightarrow> bool" where
  "is_white_space c =
     (c \<in> set [9, 10, 11, 12, 13, 32, 160, 5760, 8232, 8233, 8239, 8287, 12288, 65279]
      \<or> (8192 \<le> c \<and> c \<le> 8202))"

definition trim :: "js_string \<Rightarrow> js_string" where
  "trim s = rev (dropWhile is_white_space (rev (dropWhile is_white_space s)))"

text \<open>
  A promise settles with a value or with a thrown error; of the error only its
  \<^verbatim>\<open>message\<close> is read by the source (an absent message is the empty string, which
  is equally falsy).
\<close>

datatype 'a outcome = Resolved 'a | Rejected js_string

text \<open>
  A JavaScript number is an IEEE 754 double; a typed array of the rendering library
  (\<^verbatim>\<open>Float32Array\<close>) holds singles. A finite number is modelled by the real it
  equals. \<open>round_to p emin\<close> rounds a real to the nearest number with a significand of
  \<open>p\<close> bits and an exponent of at least \<open>emin\<close> (below it the spacing stays that of
  \<open>emin\<close>, as for subnormal numbers), ties going to the even significand: \<open>dbl\<close> is
  the rounding of every arithmetic operation on doubles, \<open>fround\<close> the rounding of a
  store into a \<^verbatim>\<open>Float32Array\<close>. Overflow to infinity is not modelled; the
  coordinates of the garment's geometries are of magnitude below 2, far from it.

  A decimal numeral that the source only stores, passes on or compares stands for the
  literal of the same spelling. Where the source computes with a literal, the model
  rounds it to the double it denotes (\<open>dbl 0.82\<close>) and rounds the result of the
  operation.
\<close>

fun bit_length :: "nat \<Rightarrow> nat" where
  "bit_length n = (if n = 0 then 0 else Suc (bit_length (n div 2)))"

definition pow2 :: "int \<Rightarrow> real" where
  "pow2 k = (if 0 \<le> k then 2 ^ nat k else 1 / 2 ^ nat (- k))"

text \<open>The binary exponent of a non-zero real: \<open>pow2 e \<le> \<bar>x\<bar> < pow2 (e + 1)\<close>.\<close>

definition exponent :: "real \<Rightarrow> int" where
  "exponent x =
     (if 1 \<le> \<bar>x\<bar> then int (bit_length (nat \<lfloor>\<bar>x\<bar>\<rfloor>)) - 1
      else - int (bit_length (nat (\<lceil>1 / \<bar>x\<bar>\<rceil> - 1))))"

definition round_even :: "real \<Rightarrow> int" where
  "round_even q =
     (let f = \<lfloor>q\<rfloor>
      in if q - of_int f < 1 / 2 then f
         else if 1 / 2 < q - of_int f then f + 1
         else if even f then f else f + 1)"

definition round_to :: "nat \<Rightarrow> int \<Rightarrow> real \<Rightarrow> real" where
  "round_to p emin x =
     (if x = 0 then 0
      else (let ulp = pow2 (max (exponent x) emin - int p + 1)
            in of_int (round_even (x / ulp)) * ulp))"

definition dbl :: "real \<Rightarrow> real" where
  "dbl x = round_to 53 (- 1022) x"

definition fround :: "real \<Rightarrow> real" where
  "fround x = round_to 24 (- 126) x"

section \<open>types.ts\<close>

datatype Theme = CYBERPUNK | ANIME | MINIMALIST | VAPORWAVE | RETRO | NATURE | ABSTRACT

fun Theme_value :: "Theme \<Rightarrow> string" where
  "Theme_value CYBERPUNK = ''Cyberpunk''"
| "Theme_value ANIME = ''Anime''"
| "Theme_value MINIMALIST = ''Minimalist''"
| "Theme_value VAPORWAVE = ''Vaporwave''"
| "Theme_value RETRO = ''Retro 80s''"
| "Theme_value NATURE = ''Nature/Floral''"
| "Theme_value ABSTRACT = ''Abstract''"

datatype ShirtSize = S | M | L | XL | XXL

datatype SleeveLength = SLEEVELESS | SHORT | LONG

fun SleeveLength_value :: "SleeveLength \<Rightarrow> string" where
  "SleeveLength_value SLEEVELESS = ''Sleeveless''"
| "SleeveLength_value SHORT = ''Short Sleeve''"
| "SleeveLength_value LONG = ''Long Sleeve''"

datatype FabricType = COTTON | POLYESTER | SILK

fun FabricType_value :: "FabricType \<Rightarrow> string" where
  "FabricType_value COTTON = ''Premium Cotton''"
| "FabricType_value POLYESTER = ''Performance Poly''"
| "FabricType_value SILK = ''Silk Blend''"

text \<open>
  \<^verbatim>\<open>quantity\<close> is a JavaScript number that only ever holds integers reached from 1 by
  steps of one; it is modelled as an unbounded integer.
\<close>

record DesignState =
  theme :: Theme
  prompt :: js_string
  generatedImageBase64 :: "js_string option"
  uploadedImage :: bool
  isGenerating :: bool
  shirtColor :: js_string
  shirt_size :: ShirtSize
  sleeveLength :: SleeveLength
  fabric :: FabricType
  quantity :: int

definition DEFAULT_SHIRT_COLOR :: js_string where
  "DEFAULT_SHIRT_COLOR = js ''#1e293b''"

text \<open>\<^verbatim>\<open>Partial<DesignState>\<close>: every field may be absent.\<close>

record DesignState_partial =
  p_theme :: "Theme option"
  p_prompt :: "js_string option"
  p_generatedImageBase64 :: "js_string option option"
  p_uploadedImage :: "bool option"
  p_isGenerating :: "bool option"
  p_shirtColor :: "js_string option"
  p_shirt_size :: "ShirtSize option"
  p_sleeveLength :: "SleeveLength option"
  p_fabric :: "FabricType option"
  p_quantity :: "int option"

definition no_updates :: DesignState_partial where
  "no_updates = \<lparr>p_theme = None, p_prompt = None, p_generatedImageBase64 = None,
     p_uploadedImage = None, p_isGenerating = None, p_shirtColor = None,
     p_shirt_size = None, p_sleeveLength = None, p_fabric = None, p_quantity = None\<rparr>"

definition or_else :: "'a option \<Rightarrow> 'a \<Rightarrow> 'a" where
  "or_else u v = (case u of None \<Rightarrow> v | Some w \<Rightarrow> w)"

text \<open>The object spread \<^verbatim>\<open>{ ...prev, ...updates }\<close>.\<close>

definition spread :: "DesignState \<Rightarrow> DesignState_partial \<Rightarrow> DesignState" where
  "spread prev updates =
     \<lparr>theme = or_else (p_theme updates) (theme prev),
      prompt = or_else (p_prompt updates) (prompt prev),
      generatedImageBase64 = or_else (p_generatedImageBase64 updates) (generatedImageBase64 prev),
      uploadedImage = or_else (p_uploadedImage updates) (uploadedImage prev),
      isGenerating = or_else (p_isGenerating updates) (isGenerating prev),
      shirtColor = or_else (p_shirtColor updates) (shirtColor prev),
      shirt_size = or_else (p_shirt_size updates) (shirt_size prev),
      sleeveLength = or_else (p_sleeveLength updates) (sleeveLength prev),
      fabric = or_else (p_fabric updates) (fabric prev),
      quantity = or_else (p_quantity updates) (quantity prev)\<rparr>"

section \<open>App.tsx\<close>

record app =
  designState :: DesignState
  error :: "js_string option"
  isGeneratingDescription :: bool
  isEnhancing :: bool

definition initial_app :: app where
  "initial_app =
     \<lparr>designState =
        \<lparr>theme = CYBERPUNK, prompt = [], generatedImageBase64 = None, uploadedImage = False,
         isGenerating = False, shirtColor = DEFAULT_SHIRT_COLOR, shirt_size = L,
         sleeveLength = SHORT, fabric = COTTON, quantity = 1\<rparr>,
      error = None, isGeneratingDescription = False, isEnhancing = False\<rparr>"

text \<open>
  \<^verbatim>\<open>updateState\<close> merges the updates into the latest state and clears the error when
  the \<^verbatim>\<open>error\<close> captured by the handler's closure is truthy. \<open>captured\<close> is that
  closure value: the error of the render in which the handler was created.
\<close>

definition updateState :: "js_string option \<Rightarrow> DesignState_partial \<Rightarrow> app \<Rightarrow> app" where
  "updateState captured updates a =
     (let a1 = a\<lparr>designState := spread (designState a) updates\<rparr>
      in if truthy captured then a1\<lparr>error := None\<rparr> else a1)"

section \<open>DesignControls.tsx: quantity selector\<close>

definition qty_minus :: "app \<Rightarrow> app" where
  "qty_minus a =
     updateState (error a) (no_updates\<lparr>p_quantity := Some (max 1 (quantity (designState a) - 1))\<rparr>) a"

definition qty_plus :: "app \<Rightarrow> app" where
  "qty_plus a =
     updateState (error a) (no_updates\<lparr>p_quantity := Some (quantity (designState a) + 1)\<rparr>) a"

section \<open>DesignControls.tsx and App.tsx: the Generate Design button\<close>

text \<open>\<^verbatim>\<open>disabled={state.isGenerating || !state.prompt.trim()}\<close>\<close>

definition generate_disabled :: "DesignState \<Rightarrow> bool" where
  "generate_disabled d = (isGenerating d \<or> \<not> truthy (Some (trim (prompt d))))"

text \<open>
  \<^verbatim>\<open>handleGenerateArt\<close> up to its \<^verbatim>\<open>await\<close>: the new state, and the arguments of the
  call to the image service if one is issued. What happens when the call settles is
  \<open>handleGenerateArt_settle\<close>, whose \<^verbatim>\<open>updateState\<close> still sees the error captured
  when the handler was created.
\<close>

type_synonym image_request = "Theme \<times> js_string \<times> js_string"

definition handleGenerateArt_begin :: "app \<Rightarrow> app \<times> image_request option" where
  "handleGenerateArt_begin a =
     (let d = designState a
      in if \<not> truthy (Some (prompt d)) then (a, None)
         else ((updateState (error a) (no_updates\<lparr>p_isGenerating := Some True\<rparr>) a)\<lparr>error := None\<rparr>,
               Some (theme d, prompt d, shirtColor d)))"

definition handleGenerateArt_settle :: "js_string option \<Rightarrow> js_string outcome \<Rightarrow> app \<Rightarrow> app" where
  "handleGenerateArt_settle captured res a =
     (case res of
        Resolved imageBase64 \<Rightarrow>
          updateState captured
            (no_updates\<lparr>p_generatedImageBase64 := Some (Some imageBase64),
                         p_uploadedImage := Some False, p_isGenerating := Some False\<rparr>) a
      | Rejected message \<Rightarrow>
          updateState captured (no_updates\<lparr>p_isGenerating := Some False\<rparr>)
            (a\<lparr>error := Some (if message \<noteq> [] then message
                                else js ''Failed to generate design. Please try again.'')\<rparr>))"

text \<open>A click on a disabled button does not reach its handler.\<close>

definition click_generate :: "app \<Rightarrow> app \<times> image_request option" where
  "click_generate a =
     (if generate_disabled (designState a) then (a, None) else handleGenerateArt_begin a)"

section \<open>App.tsx: the other handlers, and the events of a session\<close>

text \<open>
  The handlers that wait for a service are split at their \<^verbatim>\<open>await\<close>, like
  \<^verbatim>\<open>handleGenerateArt\<close>; the part that runs when the call settles takes the error its
  closure captured.
\<close>

definition handleAutoDescription_begin :: "app \<Rightarrow> app" where
  "handleAutoDescription_begin a = a\<lparr>isGeneratingDescription := True, error := None\<rparr>"

definition handleAutoDescription_settle :: "js_string option \<Rightarrow> js_string outcome \<Rightarrow> app \<Rightarrow> app" where
  "handleAutoDescription_settle captured res a =
     (case res of
        Resolved creativePrompt \<Rightarrow>
          (updateState captured (no_updates\<lparr>p_prompt := Some creativePrompt\<rparr>) a)
            \<lparr>isGeneratingDescription := False\<rparr>
      | Rejected message \<Rightarrow>
          a\<lparr>error := Some (js ''Failed to generate description via AI.''),
            isGeneratingDescription := False\<rparr>)"

definition handleEnhancePrompt_begin :: "app \<Rightarrow> app" where
  "handleEnhancePrompt_begin a =
     (if \<not> truthy (Some (trim (prompt (designState a)))) then a
      else a\<lparr>isEnhancing := True, error := None\<rparr>)"

definition handleEnhancePrompt_settle :: "js_string option \<Rightarrow> js_string outcome \<Rightarrow> app \<Rightarrow> app" where
  "handleEnhancePrompt_settle captured res a =
     (case res of
        Resolved enhanced \<Rightarrow>
          (updateState captured (no_updates\<lparr>p_prompt := Some enhanced\<rparr>) a)\<lparr>isEnhancing := False\<rparr>
      | Rejected message \<Rightarrow>
          a\<lparr>error := Some (js ''Failed to enhance prompt.''), isEnhancing := False\<rparr>)"

definition handleUploadImage :: "js_string option \<Rightarrow> js_string option \<Rightarrow> app \<Rightarrow> app" where
  "handleUploadImage captured imageData a =
     (if truthy imageData
      then updateState captured
             (no_updates\<lparr>p_generatedImageBase64 := Some imageData, p_uploadedImage := Some True\<rparr>) a
      else updateState captured
             (no_updates\<lparr>p_generatedImageBase64 := Some None, p_uploadedImage := Some False\<rparr>) a)"

text \<open>
  Everything that changes the state of the application: the controls of
  \<^verbatim>\<open>DesignControls\<close> and the settling of the calls they started.
\<close>

datatype ui_event =
    SelectTheme Theme
  | EditPrompt js_string
  | SelectSleeve SleeveLength
  | SelectFabric FabricType
  | SelectColor js_string
  | SelectSize ShirtSize
  | QtyMinus
  | QtyPlus
  | ClickGenerate
  | GenerateSettles "js_string option" "js_string outcome"
  | ClickRandomIdea
  | RandomIdeaSettles "js_string option" "js_string outcome"
  | ClickEnhance
  | EnhanceSettles "js_string option" "js_string outcome"
  | ImageChosen "js_string option" "js_string option"

fun step :: "ui_event \<Rightarrow> app \<Rightarrow> app" where
  "step (SelectTheme x) a = updateState (error a) (no_updates\<lparr>p_theme := Some x\<rparr>) a"
| "step (EditPrompt x) a = updateState (error a) (no_updates\<lparr>p_prompt := Some x\<rparr>) a"
| "step (SelectSleeve x) a = updateState (error a) (no_updates\<lparr>p_sleeveLength := Some x\<rparr>) a"
| "step (SelectFabric x) a = updateState (error a) (no_updates\<lparr>p_fabric := Some x\<rparr>) a"
| "step (SelectColor x) a = updateState (error a) (no_updates\<lparr>p_shirtColor := Some x\<rparr>) a"
| "step (SelectSize x) a = updateState (error a) (no_updates\<lparr>p_shirt_size := Some x\<rparr>) a"
| "step QtyMinus a = qty_minus a"
| "step QtyPlus a = qty_plus a"
| "step ClickGenerate a = fst (click_generate a)"
| "step (GenerateSettles captured res) a = handleGenerateArt_settle captured res a"
| "step ClickRandomIdea a =
     (if isGeneratingDescription a then a else handleAutoDescription_begin a)"
| "step (RandomIdeaSettles captured res) a = handleAutoDescription_settle captured res a"
| "step ClickEnhance a =
     (if isEnhancing a \<or> \<not> truthy (Some (trim (prompt (designState a)))) then a
      else handleEnhancePrompt_begin a)"
| "step (EnhanceSettles captured res) a = handleEnhancePrompt_settle captured res a"
| "step (ImageChosen captured imageData) a = handleUploadImage captured imageData a"

fun run :: "ui_event list \<Rightarrow> app \<Rightarrow> app" where
  "run [] a = a"
| "run (e # es) a = run es (step e a)"

text \<open>
  The image service resolves with a data URL
  (\<^verbatim>\<open>data:image/png;base64,...\<close> in \<^verbatim>\<open>generateTShirtDesign\<close>), which is not the empty
  string: \<open>from_service\<close> holds of the events whose result can come from it.
\<close>

fun from_service :: "ui_event \<Rightarrow> bool" where
  "from_service (GenerateSettles captured (Resolved imageBase64)) = (imageBase64 \<noteq> [])"
| "from_service e = True"

section \<open>geminiService.ts: enhancePrompt\<close>

record content_request =
  model :: js_string
  contents :: js_string

record content_response =
  response_text :: "js_string option"

definition enhance_instruction :: "Theme \<Rightarrow> js_string" where
  "enhance_instruction th =
     js ''Act as an expert art director. Rewrite the following T-shirt design prompt to be more descriptive, artistic, and suitable for a high-quality vector illustration in the style of ''
     @ [34] @ js (Theme_value th) @ [34] @ js ''. '' @ [10]
     @ js ''  Keep it concise (under 40 words). '' @ [10]
     @ js ''  Maintain the original subject matter but make it sound professional.'' @ [10]
     @ js ''  Output ONLY the enhanced prompt text.''"

definition enhance_request :: "js_string \<Rightarrow> Theme \<Rightarrow> content_request" where
  "enhance_request currentPrompt th =
     \<lparr>model = js ''gemini-2.5-flash'',
      contents = enhance_instruction th @ [10, 10] @ js ''Input Prompt: '' @ [34]
                 @ currentPrompt @ [34]\<rparr>"

text \<open>
  \<open>GEMINI_API_KEY\<close> is the module constant (\<^verbatim>\<open>process.env.API_KEY || ''\<close>) and
  \<open>generateContent\<close> the external text model, which answers a request or throws.
\<close>

definition enhancePrompt ::
  "js_string \<Rightarrow> (content_request \<Rightarrow> content_response outcome) \<Rightarrow> js_string \<Rightarrow> Theme
     \<Rightarrow> js_string outcome" where
  "enhancePrompt GEMINI_API_KEY generateContent currentPrompt th =
     (if \<not> truthy (Some GEMINI_API_KEY) then Rejected (js ''API Key is missing.'')
      else case generateContent (enhance_request currentPrompt th) of
             Resolved result \<Rightarrow>
               (case response_text result of
                  None \<Rightarrow> Resolved currentPrompt
                | Some t \<Rightarrow>
                    if truthy (Some (trim t)) then Resolved (trim t) else Resolved currentPrompt)
           | Rejected e \<Rightarrow> Resolved currentPrompt)"


definition answering_service :: "js_string option \<Rightarrow> content_request \<Rightarrow> content_response outcome" where
  "answering_service t r = Resolved \<lparr>response_text = t\<rparr>"


section \<open>ThreeViewer.tsx: the objects of the rendering library\<close>

text \<open>
  Coordinates and material parameters are numbers as described above. Objects live in
  heaps (one list per class); a reference is the index of the object,
  and allocation appends, so that sharing of a geometry or a material between meshes is
  visible in the model.
\<close>

type_synonym vec2 = "real \<times> real"
type_synonym vec3 = "real \<times> real \<times> real"
type_synonym ref = nat

text \<open>\<^verbatim>\<open>Math.PI\<close> is the double nearest to \<open>\<pi>\<close>, written as the fraction it equals.\<close>

definition Math_PI :: real where
  "Math_PI = 884279719003555 / 281474976710656"

definition getX :: "vec3 \<Rightarrow> real" where
  "getX p = fst p"

definition getY :: "vec3 \<Rightarrow> real" where
  "getY p = fst (snd p)"

definition set_x :: "real \<Rightarrow> vec3 \<Rightarrow> vec3" where
  "set_x a p = (a, snd p)"

definition set_z :: "real \<Rightarrow> vec3 \<Rightarrow> vec3" where
  "set_z a p = (fst p, fst (snd p), a)"

datatype geometry_class = CylinderGeometry | TorusGeometry | SphereGeometry

datatype arg = Num real | Bool bool

record BufferGeometry =
  geometry_class :: geometry_class
  args :: "arg list"
  posAttribute :: "vec3 list"
  uvAttribute :: "vec2 list"
  disposed :: bool

datatype ColorSpace = NoColorSpace | SRGBColorSpace | LinearSRGBColorSpace

datatype Side = FrontSide | BackSide | DoubleSide

record Texture =
  tex_image :: js_string
  colorSpace :: ColorSpace
  flipY :: bool

record MeshStandardMaterial =
  color :: js_string
  roughness :: real
  metalness :: real
  transparent :: bool
  opacity :: real
  side :: Side
  depthTest :: bool
  depthWrite :: bool
  polygonOffset :: bool
  polygonOffsetFactor :: real
  map_tex :: "Texture option"
  needsUpdate :: bool

text \<open>
  \<open>part\<close> records the source variable a mesh was bound to when it was created; it is
  not a field of the library's object.
\<close>

datatype part = torso | collar | leftArm | rightArm | leftCap | rightCap | printMesh

record Mesh =
  part :: part
  geometry :: ref
  material :: ref
  position :: vec3
  rotation :: vec3
  scale :: vec3
  castShadow :: bool
  receiveShadow :: bool

text \<open>
  What the library supplies and the source does not fix: the vertex buffers a geometry
  constructor generates from its arguments (\<open>buffers\<close>; the positions are singles), the
  vertex positions a translation of a geometry leaves in its buffer (\<open>translated\<close>), and
  the values of the properties that a constructor call of the source leaves out.
\<close>

record THREE =
  buffers :: "geometry_class \<Rightarrow> arg list \<Rightarrow> vec3 list \<times> vec2 list"
  translated :: "vec3 \<Rightarrow> vec3 list \<Rightarrow> vec3 list"
  material_defaults :: MeshStandardMaterial
  object_position :: vec3
  object_rotation :: vec3
  object_scale :: vec3
  object_castShadow :: bool
  object_receiveShadow :: bool

definition new_geometry :: "THREE \<Rightarrow> geometry_class \<Rightarrow> arg list \<Rightarrow> BufferGeometry" where
  "new_geometry lib c as =
     \<lparr>geometry_class = c, args = as, posAttribute = fst (buffers lib c as),
      uvAttribute = snd (buffers lib c as), disposed = False\<rparr>"

definition translate :: "THREE \<Rightarrow> vec3 \<Rightarrow> BufferGeometry \<Rightarrow> BufferGeometry" where
  "translate lib d g = g\<lparr>posAttribute := translated lib d (posAttribute g)\<rparr>"

definition new_Mesh :: "THREE \<Rightarrow> part \<Rightarrow> ref \<Rightarrow> ref \<Rightarrow> Mesh" where
  "new_Mesh lib p g m =
     \<lparr>part = p, geometry = g, material = m, position = object_position lib,
      rotation = object_rotation lib, scale = object_scale lib,
      castShadow = object_castShadow lib, receiveShadow = object_receiveShadow lib\<rparr>"

section \<open>ThreeViewer.tsx: the component's state\<close>

text \<open>
  The props of the component are written \<open>shirtColor'\<close>, \<open>designTexture\<close>,
  \<open>sleeveLength'\<close> and \<open>fabricType\<close> (primed where the name is also a field of
  \<open>DesignState\<close>).
  \<open>shirtGroupRef\<close> is \<open>None\<close> while the ref is null, and otherwise holds the children
  of the group in the order they were added. \<open>loads\<close> are the texture loads that have
  been started and have not settled: the URL and the material their callback captured.
\<close>

record viewer =
  geometries :: "BufferGeometry list"
  materials :: "MeshStandardMaterial list"
  meshes :: "Mesh list"
  shirtGroupRef :: "ref list option"
  printMeshRef :: "ref option"
  loads :: "(js_string \<times> ref) list"

definition mounted :: viewer where
  "mounted = \<lparr>geometries = [], materials = [], meshes = [], shirtGroupRef = Some [],
     printMeshRef = None, loads = []\<rparr>"

definition add_geometry :: "BufferGeometry \<Rightarrow> viewer \<Rightarrow> viewer" where
  "add_geometry g v = v\<lparr>geometries := geometries v @ [g]\<rparr>"

definition add_material :: "MeshStandardMaterial \<Rightarrow> viewer \<Rightarrow> viewer" where
  "add_material m v = v\<lparr>materials := materials v @ [m]\<rparr>"

definition add_mesh :: "Mesh \<Rightarrow> viewer \<Rightarrow> viewer" where
  "add_mesh m v = v\<lparr>meshes := meshes v @ [m]\<rparr>"

definition group_add :: "ref \<Rightarrow> viewer \<Rightarrow> viewer" where
  "group_add child v = v\<lparr>shirtGroupRef := map_option (\<lambda>children. children @ [child]) (shirtGroupRef v)\<rparr>"

text \<open>\<^verbatim>\<open>geometry.translate\<close> moves the vertices of the geometry object in place.\<close>

definition translate_at :: "THREE \<Rightarrow> ref \<Rightarrow> vec3 \<Rightarrow> viewer \<Rightarrow> viewer" where
  "translate_at lib g d v =
     v\<lparr>geometries := (geometries v)[g := translate lib d (geometries v ! g)]\<rparr>"

subsection \<open>updateTexture\<close>

definition clear_map :: "ref \<Rightarrow> viewer \<Rightarrow> viewer" where
  "clear_map mat v =
     v\<lparr>materials := (materials v)[mat := (materials v ! mat)\<lparr>opacity := 0, map_tex := None, needsUpdate := True\<rparr>]\<rparr>"

definition updateTexture :: "js_string option \<Rightarrow> ref option \<Rightarrow> viewer \<Rightarrow> viewer" where
  "updateTexture texUrl mesh v =
     (case mesh of
        None \<Rightarrow> v
      | Some m \<Rightarrow>
          (let mat = material (meshes v ! m)
           in case (if truthy texUrl then texUrl else None) of
                Some url \<Rightarrow> v\<lparr>loads := loads v @ [(url, mat)]\<rparr>
              | None \<Rightarrow> clear_map mat v))"

text \<open>The callback handed to \<^verbatim>\<open>TextureLoader.load\<close>, run with the decoded texture.\<close>

definition onLoad :: "ref \<Rightarrow> Texture \<Rightarrow> viewer \<Rightarrow> viewer" where
  "onLoad mat tex v =
     v\<lparr>materials := (materials v)[mat := (materials v ! mat)
         \<lparr>opacity := 1, map_tex := Some (tex\<lparr>colorSpace := SRGBColorSpace, flipY := True\<rparr>),
          needsUpdate := True\<rparr>]\<rparr>"

text \<open>
  The \<open>k\<close>-th outstanding load settles: with the decoded texture the callback runs; a
  failed decode (\<open>None\<close>) runs nothing, as the source passes no error callback.
\<close>

definition load_settles :: "nat \<Rightarrow> Texture option \<Rightarrow> viewer \<Rightarrow> viewer" where
  "load_settles k decoded v =
     (if k < length (loads v)
      then (let v1 = v\<lparr>loads := take k (loads v) @ drop (Suc k) (loads v)\<rparr>
            in case decoded of
                 None \<Rightarrow> v1
               | Some tex \<Rightarrow> onLoad (snd (loads v ! k)) tex v1)
      else v)"

definition texture_effect :: "js_string option \<Rightarrow> viewer \<Rightarrow> viewer" where
  "texture_effect designTexture v = updateTexture designTexture (printMeshRef v) v"

subsection \<open>The colour effect\<close>

definition set_color :: "js_string \<Rightarrow> ref \<Rightarrow> viewer \<Rightarrow> viewer" where
  "set_color c mat v = v\<lparr>materials := (materials v)[mat := (materials v ! mat)\<lparr>color := c\<rparr>]\<rparr>"

text \<open>
  \<^verbatim>\<open>group.children.forEach\<close>; every child is a mesh and has a material, so the test
  \<^verbatim>\<open>child.material\<close> holds and what remains is \<^verbatim>\<open>child !== printMeshRef.current\<close>.
\<close>

fun color_children :: "js_string \<Rightarrow> ref list \<Rightarrow> viewer \<Rightarrow> viewer" where
  "color_children c [] v = v"
| "color_children c (child # rest) v =
     color_children c rest
       (if Some child \<noteq> printMeshRef v then set_color c (material (meshes v ! child)) v else v)"

definition color_effect :: "js_string \<Rightarrow> viewer \<Rightarrow> viewer" where
  "color_effect shirtColor' v =
     (case shirtGroupRef v of None \<Rightarrow> v | Some children \<Rightarrow> color_children shirtColor' children v)"

subsection \<open>The rebuild effect\<close>

text \<open>
  \<^verbatim>\<open>while (group.children.length > 0)\<close>: dispose the first child's geometry and remove
  the child.
\<close>

definition dispose :: "ref \<Rightarrow> viewer \<Rightarrow> viewer" where
  "dispose g v = v\<lparr>geometries := (geometries v)[g := (geometries v ! g)\<lparr>disposed := True\<rparr>]\<rparr>"

fun clear_children :: "ref list \<Rightarrow> viewer \<Rightarrow> viewer" where
  "clear_children [] v = v\<lparr>shirtGroupRef := Some []\<rparr>"
| "clear_children (child # rest) v = clear_children rest (dispose (geometry (meshes v ! child)) v)"

definition fabric_parameters :: "FabricType \<Rightarrow> real \<times> real" where
  "fabric_parameters fabricType =
     (if FabricType_value fabricType = ''Performance Poly'' then (0.5, 0.1)
      else if FabricType_value fabricType = ''Silk Blend'' then (0.3, 0.2)
      else (0.9, 0.0))"

definition build_torso :: "THREE \<Rightarrow> ref \<Rightarrow> viewer \<Rightarrow> viewer" where
  "build_torso lib mat v =
     (let torsoGeo = length (geometries v);
          v = add_geometry (new_geometry lib CylinderGeometry [Num 0.55, Num 0.55, Num 1.5, Num 32]) v;
          torso_ref = length (meshes v);
          v = add_mesh ((new_Mesh lib torso torsoGeo mat)
                \<lparr>scale := (1, 1, 0.5), castShadow := True, receiveShadow := True\<rparr>) v
      in group_add torso_ref v)"

definition build_collar :: "THREE \<Rightarrow> ref \<Rightarrow> viewer \<Rightarrow> viewer" where
  "build_collar lib mat v =
     (let collarGeo = length (geometries v);
          v = add_geometry (new_geometry lib TorusGeometry [Num 0.22, Num 0.04, Num 16, Num 32]) v;
          collar_ref = length (meshes v);
          v = add_mesh ((new_Mesh lib collar collarGeo mat)
                \<lparr>position := (0, 0.75, 0), rotation := set_x (dbl (Math_PI / 2)) (object_rotation lib)\<rparr>) v
      in group_add collar_ref v)"

definition build_sleeves :: "THREE \<Rightarrow> SleeveLength \<Rightarrow> ref \<Rightarrow> viewer \<Rightarrow> viewer" where
  "build_sleeves lib sleeveLength' mat v =
     (if SleeveLength_value sleeveLength' \<noteq> ''Sleeveless''
      then
        (let isLong = (SleeveLength_value sleeveLength' = ''Long Sleeve'');
             sleeveLen = (if isLong then 1.6 else 0.6);
             sleeveRadTop = 0.22;
             sleeveRadBot = (if isLong then 0.15 else 0.2);
             armGeo = length (geometries v);
             v = add_geometry (new_geometry lib CylinderGeometry
                   [Num sleeveRadTop, Num sleeveRadBot, Num sleeveLen, Num 32]) v;
             leftArm_ref = length (meshes v);
             v = add_mesh ((new_Mesh lib leftArm armGeo mat)
                   \<lparr>position := (0.5, 0.65, 0), rotation := set_z (dbl (Math_PI / 3.5)) (object_rotation lib),
                    castShadow := True, receiveShadow := True\<rparr>) v;
             v = translate_at lib armGeo (0, dbl (- dbl sleeveLen / 2), 0) v;
             v = group_add leftArm_ref v;
             rightArm_ref = length (meshes v);
             v = add_mesh ((new_Mesh lib rightArm armGeo mat)
                   \<lparr>position := (- 0.5, 0.65, 0), rotation := set_z (dbl (- Math_PI / 3.5)) (object_rotation lib),
                    castShadow := True, receiveShadow := True\<rparr>) v
         in group_add rightArm_ref v)
      else
        (let capGeo = length (geometries v);
             v = add_geometry (new_geometry lib SphereGeometry
                   [Num 0.23, Num 16, Num 16, Num 0, Num (dbl (Math_PI * 2)), Num 0, Num (dbl (Math_PI / 2))]) v;
             leftCap_ref = length (meshes v);
             v = add_mesh ((new_Mesh lib leftCap capGeo mat)
                   \<lparr>position := (0.45, 0.6, 0), scale := (1, 0.5, 0.5)\<rparr>) v;
             v = group_add leftCap_ref v;
             rightCap_ref = length (meshes v);
             v = add_mesh ((new_Mesh lib rightCap capGeo mat)
                   \<lparr>position := (- 0.45, 0.6, 0), scale := (1, 0.5, 0.5)\<rparr>) v
         in group_add rightCap_ref v))"

text \<open>
  \<^verbatim>\<open>uvAttribute.setXY(i, u, v)\<close> stores two doubles into the \<^verbatim>\<open>Float32Array\<close>
  behind the attribute: each is rounded to a single. A write past the end of the typed
  array is dropped, as \<open>list_update\<close> does.
\<close>

definition setXY :: "nat \<Rightarrow> real \<Rightarrow> real \<Rightarrow> vec2 list \<Rightarrow> vec2 list" where
  "setXY i u v uv = uv[i := (fround u, fround v)]"

text \<open>
  The loop \<^verbatim>\<open>for (let i = 0; i < posAttribute.count; i++)\<close> over the vertices of the
  print geometry. \<^verbatim>\<open>getX\<close> and \<^verbatim>\<open>getY\<close> read singles, which are doubles as they
  are; the division and the addition are operations on doubles; 0.5 is a double.
\<close>

function uv_loop :: "nat \<Rightarrow> vec3 list \<Rightarrow> vec2 list \<Rightarrow> vec2 list" where
  "uv_loop i pos uv =
     (if i < length pos
      then (let x = getX (pos ! i);
                y = getY (pos ! i);
                u = dbl (dbl (x / dbl 0.82) + 0.5);
                v = dbl (dbl (y / dbl 0.7) + 0.5)
            in uv_loop (i + 1) pos (setXY i u v uv))
      else uv)"
  by pat_completeness auto
termination
  by (relation "measure (\<lambda>(i, pos, uv). length pos - i)") auto

definition remap_uv :: "BufferGeometry \<Rightarrow> BufferGeometry" where
  "remap_uv g = g\<lparr>uvAttribute := uv_loop 0 (posAttribute g) (uvAttribute g)\<rparr>"

definition print_args :: "arg list" where
  "print_args = [Num 0.56, Num 0.56, Num 0.7, Num 32, Num 1, Bool True, Num (- 0.8), Num 1.6]"

definition build_print :: "THREE \<Rightarrow> real \<Rightarrow> real \<Rightarrow> viewer \<Rightarrow> viewer" where
  "build_print lib r m v =
     (let printGeo = length (geometries v);
          v = add_geometry (remap_uv (new_geometry lib CylinderGeometry print_args)) v;
          printMat = length (materials v);
          v = add_material ((material_defaults lib)
                \<lparr>roughness := r, metalness := m, transparent := True, opacity := 0,
                 side := DoubleSide, depthTest := True, depthWrite := False,
                 polygonOffset := True, polygonOffsetFactor := - 4\<rparr>) v;
          printMesh_ref = length (meshes v);
          v = add_mesh ((new_Mesh lib printMesh printGeo printMat)
                \<lparr>rotation := (0, 0, 0), scale := (1, 1, 0.5)\<rparr>) v;
          v = v\<lparr>printMeshRef := Some printMesh_ref\<rparr>
      in group_add printMesh_ref v)"

definition rebuild ::
  "THREE \<Rightarrow> js_string \<Rightarrow> js_string option \<Rightarrow> SleeveLength \<Rightarrow> FabricType \<Rightarrow> viewer \<Rightarrow> viewer" where
  "rebuild lib shirtColor' designTexture sleeveLength' fabricType v =
     (case shirtGroupRef v of
        None \<Rightarrow> v
      | Some children \<Rightarrow>
          (let v = clear_children children v;
               r = fst (fabric_parameters fabricType);
               m = snd (fabric_parameters fabricType);
               mat = length (materials v);
               v = add_material ((material_defaults lib)
                     \<lparr>color := shirtColor', roughness := r, metalness := m\<rparr>) v;
               v = build_torso lib mat v;
               v = build_collar lib mat v;
               v = build_sleeves lib sleeveLength' mat v;
               v = build_print lib r m v
           in updateTexture designTexture (printMeshRef v) v))"

subsection \<open>Reading the garment mesh\<close>

definition children_of :: "viewer \<Rightarrow> ref list" where
  "children_of v = (case shirtGroupRef v of None \<Rightarrow> [] | Some children \<Rightarrow> children)"

definition material_of :: "viewer \<Rightarrow> ref \<Rightarrow> MeshStandardMaterial" where
  "material_of v child = materials v ! material (meshes v ! child)"

definition geometry_of :: "viewer \<Rightarrow> ref \<Rightarrow> BufferGeometry" where
  "geometry_of v child = geometries v ! geometry (meshes v ! child)"

definition sleeve_cylinders :: "viewer \<Rightarrow> ref list" where
  "sleeve_cylinders v =
     filter (\<lambda>child. part (meshes v ! child) = leftArm \<or> part (meshes v ! child) = rightArm)
       (children_of v)"

definition shoulder_caps :: "viewer \<Rightarrow> ref list" where
  "shoulder_caps v =
     filter (\<lambda>child. part (meshes v ! child) = leftCap \<or> part (meshes v ! child) = rightCap)
       (children_of v)"

definition print_surfaces :: "viewer \<Rightarrow> ref list" where
  "print_surfaces v = filter (\<lambda>child. part (meshes v ! child) = printMesh) (children_of v)"

text \<open>
  \<open>same_but_binding m m'\<close>: the material \<open>m'\<close> is \<open>m\<close> except, at most, for its map,
  its opacity and its update mark.
\<close>

definition same_but_binding :: "MeshStandardMaterial \<Rightarrow> MeshStandardMaterial \<Rightarrow> bool" where
  "same_but_binding m m' =
     (m'\<lparr>opacity := opacity m, map_tex := map_tex m, needsUpdate := needsUpdate m\<rparr> = m)"

text \<open>
  The references of the children and of the print mesh point into the heaps, and no
  other child shares the print mesh's material.
\<close>

definition well_formed :: "viewer \<Rightarrow> bool" where
  "well_formed v =
     ((\<forall>child \<in> set (children_of v).
         child < length (meshes v) \<and> material (meshes v ! child) < length (materials v))
      \<and> (case printMeshRef v of
            None \<Rightarrow> True
          | Some p \<Rightarrow>
              p < length (meshes v) \<and> material (meshes v ! p) < length (materials v)
              \<and> (\<forall>child \<in> set (children_of v).
                    child \<noteq> p \<longrightarrow> material (meshes v ! child) \<noteq> material (meshes v ! p))))"

text \<open>
  A concrete library for the examples: three vertices per geometry, with coordinates that
  are singles. The first is the middle of the print surface's top edge: \<open>x = 0\<close>,
  \<open>y\<close> the single nearest to 0.35 (half the height 0.7), \<open>z\<close> the single nearest
  to the radius 0.56. In the third, \<open>x\<close> is the single nearest to 0.41.
\<close>

definition sample_three :: THREE where
  "sample_three =
     \<lparr>buffers = (\<lambda>c as. ([(0, 11744051 / 33554432, 9395241 / 16777216),
                           (- 1 / 4, - 1 / 4, 1 / 2),
                           (13757317 / 33554432, 0, 3 / 8)],
                          [(0, 0), (1, 0), (1, 1)])),
      translated = (\<lambda>d. map (\<lambda>p. (fround (dbl (fst p + fst d)),
                                       fround (dbl (fst (snd p) + fst (snd d))),
                                       fround (dbl (snd (snd p) + snd (snd d)))))),
      material_defaults =
        \<lparr>color = js ''#ffffff'', roughness = 1, metalness = 0, transparent = False, opacity = 1,
         side = FrontSide, depthTest = True, depthWrite = True, polygonOffset = False,
         polygonOffsetFactor = 0, map_tex = None, needsUpdate = False\<rparr>,
      object_position = (0, 0, 0), object_rotation = (0, 0, 0), object_scale = (1, 1, 1),
      object_castShadow = False, object_receiveShadow = False\<rparr>"

text \<open>The viewer after its first rebuild, with the initial props of the application.\<close>

definition sample_viewer :: viewer where
  "sample_viewer = rebuild sample_three DEFAULT_SHIRT_COLOR None SHORT COTTON mounted"

definition sample_url :: js_string where
  "sample_url = js ''data:image/png;base64,iVBORw0KGgo=''"

definition sample_texture :: Texture where
  "sample_texture = \<lparr>tex_image = sample_url, colorSpace = NoColorSpace, flipY = True\<rparr>"


section \<open>Heap effects of the build steps\<close>

lemma clear_children_fields [simp]:
  "meshes (clear_children ch v) = meshes v"
  "materials (clear_children ch v) = materials v"
  "length (geometries (clear_children ch v)) = length (geometries v)"
  "shirtGroupRef (clear_children ch v) = Some []"
  "printMeshRef (clear_children ch v) = printMeshRef v"
  "loads (clear_children ch v) = loads v"
  by (induction ch arbitrary: v) (simp_all add: dispose_def)

lemmas heap_defs = add_geometry_def add_mesh_def add_material_def group_add_def translate_at_def Let_def

lemma add_material_fields [simp]:
  "meshes (add_material x v) = meshes v"
  "geometries (add_material x v) = geometries v"
  "materials (add_material x v) = materials v @ [x]"
  "shirtGroupRef (add_material x v) = shirtGroupRef v"
  "printMeshRef (add_material x v) = printMeshRef v"
  "loads (add_material x v) = loads v"
  by (simp_all add: add_material_def)

lemma build_torso_fields [simp]:
  "meshes (build_torso lib mat v) =
     meshes v @ [(new_Mesh lib torso (length (geometries v)) mat)
                   \<lparr>scale := (1, 1, 0.5), castShadow := True, receiveShadow := True\<rparr>]"
  "geometries (build_torso lib mat v) =
     geometries v @ [new_geometry lib CylinderGeometry [Num 0.55, Num 0.55, Num 1.5, Num 32]]"
  "materials (build_torso lib mat v) = materials v"
  "shirtGroupRef (build_torso lib mat v) = map_option (\<lambda>ch. ch @ [length (meshes v)]) (shirtGroupRef v)"
  "printMeshRef (build_torso lib mat v) = printMeshRef v"
  "loads (build_torso lib mat v) = loads v"
  by (simp_all add: build_torso_def heap_defs)

lemma build_collar_fields [simp]:
  "meshes (build_collar lib mat v) =
     meshes v @ [(new_Mesh lib collar (length (geometries v)) mat)
                   \<lparr>position := (0, 0.75, 0), rotation := set_x (dbl (Math_PI / 2)) (object_rotation lib)\<rparr>]"
  "geometries (build_collar lib mat v) =
     geometries v @ [new_geometry lib TorusGeometry [Num 0.22, Num 0.04, Num 16, Num 32]]"
  "materials (build_collar lib mat v) = materials v"
  "shirtGroupRef (build_collar lib mat v) = map_option (\<lambda>ch. ch @ [length (meshes v)]) (shirtGroupRef v)"
  "printMeshRef (build_collar lib mat v) = printMeshRef v"
  "loads (build_collar lib mat v) = loads v"
  by (simp_all add: build_collar_def heap_defs)

lemma build_sleeves_fields [simp]:
  "materials (build_sleeves lib sl mat v) = materials v"
  "shirtGroupRef (build_sleeves lib sl mat v) =
     map_option (\<lambda>ch. ch @ [length (meshes v), Suc (length (meshes v))]) (shirtGroupRef v)"
  "printMeshRef (build_sleeves lib sl mat v) = printMeshRef v"
  "loads (build_sleeves lib sl mat v) = loads v"
  "length (meshes (build_sleeves lib sl mat v)) = Suc (Suc (length (meshes v)))"
  "length (geometries (build_sleeves lib sl mat v)) = Suc (length (geometries v))"
  by (simp_all add: build_sleeves_def heap_defs option.map_comp comp_def)

lemma build_sleeves_meshes:
  "meshes (build_sleeves lib sl mat v) =
     meshes v @
     (if sl = SLEEVELESS
      then [(new_Mesh lib leftCap (length (geometries v)) mat)
              \<lparr>position := (0.45, 0.6, 0), scale := (1, 0.5, 0.5)\<rparr>,
            (new_Mesh lib rightCap (length (geometries v)) mat)
              \<lparr>position := (- 0.45, 0.6, 0), scale := (1, 0.5, 0.5)\<rparr>]
      else [(new_Mesh lib leftArm (length (geometries v)) mat)
              \<lparr>position := (0.5, 0.65, 0), rotation := set_z (dbl (Math_PI / 3.5)) (object_rotation lib),
               castShadow := True, receiveShadow := True\<rparr>,
            (new_Mesh lib rightArm (length (geometries v)) mat)
              \<lparr>position := (- 0.5, 0.65, 0), rotation := set_z (dbl (- Math_PI / 3.5)) (object_rotation lib),
               castShadow := True, receiveShadow := True\<rparr>])"
  by (cases sl) (simp_all add: build_sleeves_def heap_defs)

lemma build_sleeves_geometries:
  "geometries (build_sleeves lib sl mat v) =
     geometries v @
     [case sl of
        SLEEVELESS \<Rightarrow> new_geometry lib SphereGeometry
          [Num 0.23, Num 16, Num 16, Num 0, Num (dbl (Math_PI * 2)), Num 0, Num (dbl (Math_PI / 2))]
      | SHORT \<Rightarrow> translate lib (0, dbl (- dbl 0.6 / 2), 0)
          (new_geometry lib CylinderGeometry [Num 0.22, Num 0.2, Num 0.6, Num 32])
      | LONG \<Rightarrow> translate lib (0, dbl (- dbl 1.6 / 2), 0)
          (new_geometry lib CylinderGeometry [Num 0.22, Num 0.15, Num 1.6, Num 32])]"
  by (cases sl) (simp_all add: build_sleeves_def heap_defs)

lemma build_print_fields [simp]:
  "meshes (build_print lib r m v) =
     meshes v @ [(new_Mesh lib printMesh (length (geometries v)) (length (materials v)))
                   \<lparr>rotation := (0, 0, 0), scale := (1, 1, 0.5)\<rparr>]"
  "geometries (build_print lib r m v) =
     geometries v @ [remap_uv (new_geometry lib CylinderGeometry print_args)]"
  "materials (build_print lib r m v) =
     materials v @ [(material_defaults lib)
       \<lparr>roughness := r, metalness := m, transparent := True, opacity := 0,
        side := DoubleSide, depthTest := True, depthWrite := False,
        polygonOffset := True, polygonOffsetFactor := - 4\<rparr>]"
  "shirtGroupRef (build_print lib r m v) = map_option (\<lambda>ch. ch @ [length (meshes v)]) (shirtGroupRef v)"
  "printMeshRef (build_print lib r m v) = Some (length (meshes v))"
  "loads (build_print lib r m v) = loads v"
  by (simp_all add: build_print_def heap_defs)

lemma updateTexture_fields [simp]:
  "meshes (updateTexture t m v) = meshes v"
  "geometries (updateTexture t m v) = geometries v"
  "shirtGroupRef (updateTexture t m v) = shirtGroupRef v"
  "printMeshRef (updateTexture t m v) = printMeshRef v"
  "length (materials (updateTexture t m v)) = length (materials v)"
  by (simp_all add: updateTexture_def clear_map_def Let_def split: option.splits)

lemma rebuild_children:
  "shirtGroupRef v = Some ch \<Longrightarrow>
   shirtGroupRef (rebuild lib c t sl f v) =
     Some (map (\<lambda>i. length (meshes v) + i) [0, 1, 2, 3, 4])"
  by (simp add: rebuild_def Let_def)

lemma rebuild_printMeshRef:
  "shirtGroupRef v = Some ch \<Longrightarrow>
   printMeshRef (rebuild lib c t sl f v) = Some (length (meshes v) + 4)"
  by (simp add: rebuild_def Let_def)

lemma rebuild_materials:
  "shirtGroupRef v = Some ch \<Longrightarrow>
   materials (rebuild lib c t sl f v) =
     materials v @ [(material_defaults lib)\<lparr>color := c, roughness := fst (fabric_parameters f), metalness := snd (fabric_parameters f)\<rparr>,
       (if truthy t then (material_defaults lib)
                \<lparr>roughness := fst (fabric_parameters f), metalness := snd (fabric_parameters f), transparent := True, opacity := 0,
                 side := DoubleSide, depthTest := True, depthWrite := False,
                 polygonOffset := True, polygonOffsetFactor := - 4\<rparr>
        else (material_defaults lib)
                \<lparr>roughness := fst (fabric_parameters f), metalness := snd (fabric_parameters f), transparent := True, opacity := 0,
                 side := DoubleSide, depthTest := True, depthWrite := False,
                 polygonOffset := True, polygonOffsetFactor := - 4, map_tex := None, needsUpdate := True\<rparr>)]"
  by (cases t) (simp_all add: rebuild_def Let_def updateTexture_def clear_map_def new_Mesh_def list_update_append nth_append truthy_def)

lemma rebuild_geometries:
  "shirtGroupRef v = Some ch \<Longrightarrow>
   geometries (rebuild lib c t sl f v) =
     geometries (clear_children ch v) @
     [new_geometry lib CylinderGeometry [Num 0.55, Num 0.55, Num 1.5, Num 32],
      new_geometry lib TorusGeometry [Num 0.22, Num 0.04, Num 16, Num 32],
      case sl of
        SLEEVELESS \<Rightarrow> new_geometry lib SphereGeometry
          [Num 0.23, Num 16, Num 16, Num 0, Num (dbl (Math_PI * 2)), Num 0, Num (dbl (Math_PI / 2))]
      | SHORT \<Rightarrow> translate lib (0, dbl (- dbl 0.6 / 2), 0)
          (new_geometry lib CylinderGeometry [Num 0.22, Num 0.2, Num 0.6, Num 32])
      | LONG \<Rightarrow> translate lib (0, dbl (- dbl 1.6 / 2), 0)
          (new_geometry lib CylinderGeometry [Num 0.22, Num 0.15, Num 1.6, Num 32]),
      remap_uv (new_geometry lib CylinderGeometry print_args)]"
  by (simp add: rebuild_def Let_def build_sleeves_geometries)

lemma rebuild_loads:
  "shirtGroupRef v = Some ch \<Longrightarrow>
   loads (rebuild lib c t sl f v) =
     loads v @ (case t of None \<Rightarrow> [] | Some url \<Rightarrow> if url = [] then [] else [(url, Suc (length (materials v)))])"
  by (simp add: rebuild_def Let_def updateTexture_def clear_map_def new_Mesh_def truthy_def nth_append split: option.splits)

lemma rebuild_meshes_explicit:
  "shirtGroupRef v = Some ch \<Longrightarrow>
   meshes (rebuild lib c t sl f v) =
     meshes v @
     [(new_Mesh lib torso (length (geometries v)) (length (materials v)))
        \<lparr>scale := (1, 1, 0.5), castShadow := True, receiveShadow := True\<rparr>,
      (new_Mesh lib collar (Suc (length (geometries v))) (length (materials v)))
        \<lparr>position := (0, 0.75, 0), rotation := set_x (dbl (Math_PI / 2)) (object_rotation lib)\<rparr>,
      (if sl = SLEEVELESS
       then (new_Mesh lib leftCap (Suc (Suc (length (geometries v)))) (length (materials v)))
              \<lparr>position := (0.45, 0.6, 0), scale := (1, 0.5, 0.5)\<rparr>
       else (new_Mesh lib leftArm (Suc (Suc (length (geometries v)))) (length (materials v)))
              \<lparr>position := (0.5, 0.65, 0), rotation := set_z (dbl (Math_PI / 3.5)) (object_rotation lib),
               castShadow := True, receiveShadow := True\<rparr>),
      (if sl = SLEEVELESS
       then (new_Mesh lib rightCap (Suc (Suc (length (geometries v)))) (length (materials v)))
              \<lparr>position := (- 0.45, 0.6, 0), scale := (1, 0.5, 0.5)\<rparr>
       else (new_Mesh lib rightArm (Suc (Suc (length (geometries v)))) (length (materials v)))
              \<lparr>position := (- 0.5, 0.65, 0), rotation := set_z (dbl (- Math_PI / 3.5)) (object_rotation lib),
               castShadow := True, receiveShadow := True\<rparr>),
      (new_Mesh lib printMesh (Suc (Suc (Suc (length (geometries v))))) (Suc (length (materials v))))
        \<lparr>rotation := (0, 0, 0), scale := (1, 1, 0.5)\<rparr>]"
  by (simp add: rebuild_def Let_def build_sleeves_meshes)

lemma rebuild_children_explicit:
  "shirtGroupRef v = Some ch \<Longrightarrow>
   children_of (rebuild lib c t sl f v) =
     [length (meshes v), Suc (length (meshes v)), Suc (Suc (length (meshes v))),
      Suc (Suc (Suc (length (meshes v)))), Suc (Suc (Suc (Suc (length (meshes v)))))]"
  by (simp add: children_of_def rebuild_children)

lemma load_settles_fields [simp]:
  "meshes (load_settles k d v) = meshes v"
  "geometries (load_settles k d v) = geometries v"
  "shirtGroupRef (load_settles k d v) = shirtGroupRef v"
  "printMeshRef (load_settles k d v) = printMeshRef v"
  "length (materials (load_settles k d v)) = length (materials v)"
  by (simp_all add: load_settles_def onLoad_def Let_def split: option.splits)

lemma texture_effect_fields [simp]:
  "meshes (texture_effect t v) = meshes v"
  "geometries (texture_effect t v) = geometries v"
  "shirtGroupRef (texture_effect t v) = shirtGroupRef v"
  "printMeshRef (texture_effect t v) = printMeshRef v"
  "length (materials (texture_effect t v)) = length (materials v)"
  by (simp_all add: texture_effect_def)

lemma rebuild_print_material:
  "shirtGroupRef v = Some ch \<Longrightarrow>
   material_of (rebuild lib c t sl f v) (Suc (Suc (Suc (Suc (length (meshes v)))))) =
     (if truthy t
      then (material_defaults lib)
             \<lparr>roughness := fst (fabric_parameters f), metalness := snd (fabric_parameters f),
              transparent := True, opacity := 0, side := DoubleSide, depthTest := True,
              depthWrite := False, polygonOffset := True, polygonOffsetFactor := - 4\<rparr>
      else (material_defaults lib)
             \<lparr>roughness := fst (fabric_parameters f), metalness := snd (fabric_parameters f),
              transparent := True, opacity := 0, side := DoubleSide, depthTest := True,
              depthWrite := False, polygonOffset := True, polygonOffsetFactor := - 4,
              map_tex := None, needsUpdate := True\<rparr>)"
  by (simp add: material_of_def rebuild_meshes_explicit rebuild_materials new_Mesh_def nth_append)

lemma rebuild_print_surfaces:
  "shirtGroupRef v = Some ch \<Longrightarrow>
   print_surfaces (rebuild lib c t sl f v) = [Suc (Suc (Suc (Suc (length (meshes v)))))]"
  by (simp add: print_surfaces_def rebuild_children_explicit rebuild_meshes_explicit new_Mesh_def
      nth_append)

section \<open>The colour loop\<close>

lemma set_color_fields [simp]:
  "meshes (set_color c m v) = meshes v"
  "geometries (set_color c m v) = geometries v"
  "shirtGroupRef (set_color c m v) = shirtGroupRef v"
  "printMeshRef (set_color c m v) = printMeshRef v"
  "loads (set_color c m v) = loads v"
  "length (materials (set_color c m v)) = length (materials v)"
  by (simp_all add: set_color_def)

lemma color_children_fields [simp]:
  "meshes (color_children c cs v) = meshes v"
  "geometries (color_children c cs v) = geometries v"
  "shirtGroupRef (color_children c cs v) = shirtGroupRef v"
  "printMeshRef (color_children c cs v) = printMeshRef v"
  "loads (color_children c cs v) = loads v"
  "length (materials (color_children c cs v)) = length (materials v)"
  by (induction cs arbitrary: v) simp_all

lemma nth_list_update_if:
  "j < length xs \<Longrightarrow> xs[i := x] ! j = (if i = j then x else xs ! j)"
  by (cases "i = j") simp_all

lemma color_children_materials:
  "i < length (materials v) \<Longrightarrow>
   materials (color_children c cs v) ! i =
     (if \<exists>child \<in> set cs. Some child \<noteq> printMeshRef v \<and> material (meshes v ! child) = i
      then (materials v ! i)\<lparr>color := c\<rparr>
      else materials v ! i)"
proof (induction cs arbitrary: v)
  case Nil
  then show ?case by simp
next
  case (Cons child rest)
  show ?case
  proof (cases "Some child \<noteq> printMeshRef v")
    case True
    have "materials (color_children c (child # rest) v) ! i =
        materials (color_children c rest (set_color c (material (meshes v ! child)) v)) ! i"
      using True by simp
    also have "\<dots> =
        (if \<exists>x \<in> set rest. Some x \<noteq> printMeshRef v \<and> material (meshes v ! x) = i
         then (materials (set_color c (material (meshes v ! child)) v) ! i)\<lparr>color := c\<rparr>
         else materials (set_color c (material (meshes v ! child)) v) ! i)"
      using Cons.prems by (subst Cons.IH) simp_all
    also have "\<dots> =
        (if \<exists>x \<in> set (child # rest). Some x \<noteq> printMeshRef v \<and> material (meshes v ! x) = i
         then (materials v ! i)\<lparr>color := c\<rparr>
         else materials v ! i)"
      using True Cons.prems by (auto simp add: set_color_def nth_list_update_if)
    finally show ?thesis .
  next
    case False
    then show ?thesis
      using Cons.prems by (simp add: Cons.IH)
  qed
qed

lemma rebuild_well_formed:
  "shirtGroupRef v = Some ch \<Longrightarrow> well_formed (rebuild lib c t sl f v)"
  by (simp add: well_formed_def rebuild_children_explicit rebuild_printMeshRef
      rebuild_meshes_explicit rebuild_materials new_Mesh_def nth_append)

lemma well_formed_mounted: "well_formed mounted"
  by (simp add: well_formed_def mounted_def children_of_def)

lemma well_formed_preserved:
  "well_formed v \<Longrightarrow> well_formed (color_effect c v)"
  "well_formed v \<Longrightarrow> well_formed (texture_effect t v)"
  "well_formed v \<Longrightarrow> well_formed (load_settles k d v)"
  by (simp_all add: well_formed_def children_of_def color_effect_def split: option.splits)

lemma well_formed_rebuild: "well_formed v \<Longrightarrow> well_formed (rebuild lib c t sl f v)"
proof (cases "shirtGroupRef v")
  case None
  then show "well_formed v \<Longrightarrow> well_formed (rebuild lib c t sl f v)"
    by (simp add: rebuild_def)
next
  case (Some ch)
  then show "well_formed (rebuild lib c t sl f v)"
    by (rule rebuild_well_formed)
qed

section \<open>Quantity\<close>

lemma quantity_updateState:
  "quantity (designState (updateState c u a)) = or_else (p_quantity u) (quantity (designState a))"
  by (simp add: updateState_def spread_def Let_def)

lemma quantity_qty_minus: "quantity (designState (qty_minus a)) = max 1 (quantity (designState a) - 1)"
  by (simp add: qty_minus_def quantity_updateState or_else_def no_updates_def)

lemma quantity_qty_plus: "quantity (designState (qty_plus a)) = quantity (designState a) + 1"
  by (simp add: qty_plus_def quantity_updateState or_else_def no_updates_def)

lemma quantity_initial_app: "quantity (designState initial_app) = 1"
  by (simp add: initial_app_def)

lemma quantity_step:
  "quantity (designState (step e a)) =
     (case e of
        QtyMinus \<Rightarrow> max 1 (quantity (designState a) - 1)
      | QtyPlus \<Rightarrow> quantity (designState a) + 1
      | _ \<Rightarrow> quantity (designState a))"
proof (cases e)
  case ClickGenerate
  then show ?thesis
    by (simp add: click_generate_def handleGenerateArt_begin_def quantity_updateState
        or_else_def no_updates_def Let_def)
next
  case (GenerateSettles captured res)
  then show ?thesis
    by (cases res)
      (simp_all add: handleGenerateArt_settle_def quantity_updateState or_else_def no_updates_def)
next
  case ClickRandomIdea
  then show ?thesis
    by (simp add: handleAutoDescription_begin_def)
next
  case (RandomIdeaSettles captured res)
  then show ?thesis
    by (cases res)
      (simp_all add: handleAutoDescription_settle_def quantity_updateState or_else_def
        no_updates_def)
next
  case ClickEnhance
  then show ?thesis
    by (simp add: handleEnhancePrompt_begin_def)
next
  case (EnhanceSettles captured res)
  then show ?thesis
    by (cases res)
      (simp_all add: handleEnhancePrompt_settle_def quantity_updateState or_else_def
        no_updates_def)
next
  case (ImageChosen captured imageData)
  then show ?thesis
    by (simp add: handleUploadImage_def quantity_updateState or_else_def no_updates_def)
qed (simp_all add: quantity_updateState or_else_def no_updates_def quantity_qty_minus
    quantity_qty_plus)

lemma step_ge_1:
  "1 \<le> quantity (designState a) \<Longrightarrow> 1 \<le> quantity (designState (step e a))"
  by (simp add: quantity_step split: ui_event.splits)

lemma run_ge_1:
  "1 \<le> quantity (designState a) \<Longrightarrow> 1 \<le> quantity (designState (run es a))"
proof (induction es arbitrary: a)
  case Nil
  then show ?case by simp
next
  case (Cons e es)
  from Cons.prems have "1 \<le> quantity (designState (step e a))"
    by (rule step_ge_1)
  then show ?case
    by (simp add: Cons.IH)
qed

text \<open>
  C4. The quantity starts at 1; the plus button adds exactly 1; the minus button yields
  \<open>max 1 (quantity - 1)\<close>; no other event of a session touches the quantity. Hence after
  any sequence of events from the initial state the quantity is at least 1; a decrement at
  1 yields 1; and three increments followed by one decrement yield 3.
\<close>

theorem quantity_at_least_one:
  "quantity (designState initial_app) = 1
   \<and> quantity (designState (qty_plus a)) = quantity (designState a) + 1
   \<and> quantity (designState (qty_minus a)) = max 1 (quantity (designState a) - 1)
   \<and> 1 \<le> quantity (designState (run es initial_app))
   \<and> quantity (designState (qty_minus initial_app)) = 1
   \<and> quantity (designState (run [QtyPlus, QtyPlus, QtyPlus, QtyMinus] initial_app)) = 3"
proof -
  have "1 \<le> quantity (designState (run es initial_app))"
    by (rule run_ge_1) (simp add: quantity_initial_app)
  moreover have "quantity (designState (run [QtyPlus, QtyPlus, QtyPlus, QtyMinus] initial_app)) = 3"
    by (simp add: quantity_qty_minus quantity_qty_plus quantity_initial_app)
  ultimately show ?thesis
    by (simp add: quantity_qty_minus quantity_qty_plus quantity_initial_app)
qed

theorem quantity_at_least_one_witness:
  "quantity (designState (qty_minus (qty_minus initial_app))) = 1
   \<and> 1 \<le> quantity (designState
        (run [QtyMinus, EditPrompt (js ''a red fox''), ClickGenerate, QtyMinus, QtyPlus, QtyMinus,
              QtyMinus] initial_app))"
  using quantity_at_least_one [of "qty_minus initial_app"
      "[QtyMinus, EditPrompt (js ''a red fox''), ClickGenerate, QtyMinus, QtyPlus, QtyMinus,
        QtyMinus]"]
  by simp

section \<open>Blank prompts\<close>

lemma trim_eq_Nil: "trim s = [] \<longleftrightarrow> (\<forall>c \<in> set s. is_white_space c)"
proof
  assume "trim s = []"
  then have "\<forall>c \<in> set (dropWhile is_white_space s). is_white_space c"
    by (simp add: trim_def)
  then have "dropWhile is_white_space s = []"
    using hd_dropWhile [of is_white_space s] hd_in_set [of "dropWhile is_white_space s"]
    by blast
  then show "\<forall>c \<in> set s. is_white_space c"
    by simp
next
  assume "\<forall>c \<in> set s. is_white_space c"
  then show "trim s = []"
    by (auto simp add: trim_def dest: set_dropWhileD)
qed

lemma js_eq_Nil [simp]: "js s = [] \<longleftrightarrow> s = []"
  by (simp add: js_def)

text \<open>
  C7. The Generate Design button is disabled exactly when a generation is in flight or
  the prompt is blank (empty or made of white space only); a click on the disabled button
  changes nothing and issues no request; and the handler itself, called with an empty
  prompt, returns without changing the state and without issuing a request.
\<close>

theorem generate_rejects_blank_prompt:
  "(generate_disabled (designState a) \<longleftrightarrow>
      isGenerating (designState a) \<or> (\<forall>c \<in> set (prompt (designState a)). is_white_space c))
   \<and> (generate_disabled (designState a) \<longrightarrow> click_generate a = (a, None))
   \<and> (prompt (designState a) = [] \<longrightarrow> handleGenerateArt_begin a = (a, None))"
  by (simp add: generate_disabled_def click_generate_def handleGenerateArt_begin_def truthy_def
      trim_eq_Nil Let_def)

theorem generate_rejects_blank_prompt_witness:
  "generate_disabled (designState (initial_app\<lparr>designState := (designState initial_app)\<lparr>prompt := [32, 9, 10]\<rparr>\<rparr>))
   \<and> click_generate (initial_app\<lparr>designState := (designState initial_app)\<lparr>prompt := [32, 9, 10]\<rparr>\<rparr>)
       = (initial_app\<lparr>designState := (designState initial_app)\<lparr>prompt := [32, 9, 10]\<rparr>\<rparr>, None)
   \<and> handleGenerateArt_begin initial_app = (initial_app, None)"
  using generate_rejects_blank_prompt [of "initial_app\<lparr>designState := (designState initial_app)\<lparr>prompt := [32, 9, 10]\<rparr>\<rparr>"]
    generate_rejects_blank_prompt [of initial_app]
  by (simp add: is_white_space_def initial_app_def)

section \<open>Prompt enhancement\<close>




text \<open>
  C10. When the request is made (an API key is configured) and succeeds, but the
  response text is absent, empty or made of white space only, the operation returns the
  original prompt unchanged.
\<close>

theorem enhancePrompt_blank_response:
  assumes "GEMINI_API_KEY \<noteq> []"
    and "generateContent (enhance_request currentPrompt th) = Resolved result"
    and "response_text result = None \<or> response_text result = Some []
         \<or> (\<exists>t. response_text result = Some t \<and> (\<forall>c \<in> set t. is_white_space c))"
  shows "enhancePrompt GEMINI_API_KEY generateContent currentPrompt th = Resolved currentPrompt"
  using assms by (auto simp add: enhancePrompt_def truthy_def trim_eq_Nil)

theorem enhancePrompt_blank_response_witness:
  "enhancePrompt (js ''k'') (answering_service None) (js ''a red fox'') ANIME = Resolved (js ''a red fox'')
   \<and> enhancePrompt (js ''k'') (answering_service (Some [])) (js ''a red fox'') ANIME
       = Resolved (js ''a red fox'')
   \<and> enhancePrompt (js ''k'') (answering_service (Some [32, 10, 9])) (js ''a red fox'') ANIME
       = Resolved (js ''a red fox'')"
proof -
  have k: "js ''k'' \<noteq> []"
    by simp
  have ws: "\<forall>c \<in> set [32, 10, 9]. is_white_space c"
    by (simp add: is_white_space_def)
  show ?thesis
    using enhancePrompt_blank_response
      [of "js ''k''" "answering_service None" "js ''a red fox''" ANIME "\<lparr>response_text = None\<rparr>"]
      enhancePrompt_blank_response
      [of "js ''k''" "answering_service (Some [])" "js ''a red fox''" ANIME
          "\<lparr>response_text = Some []\<rparr>"]
      enhancePrompt_blank_response
      [of "js ''k''" "answering_service (Some [32, 10, 9])" "js ''a red fox''" ANIME
          "\<lparr>response_text = Some [32, 10, 9]\<rparr>"]
      k ws
    by (simp add: answering_service_def)
qed

section \<open>The garment mesh after a rebuild\<close>

text \<open>
  C1. After a rebuild (the group exists), for every sleeve length: with \<open>SHORT\<close> or
  \<open>LONG\<close> the group holds exactly two sleeve cylinders (of the length and radii of that
  sleeve length) and no shoulder cap; with \<open>SLEEVELESS\<close> it holds exactly two shoulder
  caps and no sleeve cylinder. So never both, and never neither.
\<close>

theorem one_sleeve_configuration:
  assumes "shirtGroupRef v \<noteq> None"
  shows "(sl \<noteq> SLEEVELESS \<longrightarrow>
            length (sleeve_cylinders (rebuild lib c t sl f v)) = 2
            \<and> shoulder_caps (rebuild lib c t sl f v) = []
            \<and> (\<forall>child \<in> set (sleeve_cylinders (rebuild lib c t sl f v)).
                  geometry_class (geometry_of (rebuild lib c t sl f v) child) = CylinderGeometry
                  \<and> args (geometry_of (rebuild lib c t sl f v) child) =
                      (if sl = LONG then [Num 0.22, Num 0.15, Num 1.6, Num 32]
                       else [Num 0.22, Num 0.2, Num 0.6, Num 32])))
       \<and> (sl = SLEEVELESS \<longrightarrow>
            length (shoulder_caps (rebuild lib c t sl f v)) = 2
            \<and> sleeve_cylinders (rebuild lib c t sl f v) = []
            \<and> (\<forall>child \<in> set (shoulder_caps (rebuild lib c t sl f v)).
                  geometry_class (geometry_of (rebuild lib c t sl f v) child) = SphereGeometry))"
proof -
  from assms obtain ch where ch: "shirtGroupRef v = Some ch"
    by auto
  show ?thesis
    by (cases sl)
      (simp_all add: sleeve_cylinders_def shoulder_caps_def geometry_of_def
        rebuild_children_explicit [OF ch] rebuild_meshes_explicit [OF ch]
        rebuild_geometries [OF ch] new_Mesh_def new_geometry_def translate_def nth_append)
qed


theorem one_sleeve_configuration_witness:
  "shirtGroupRef mounted \<noteq> None
   \<and> sleeve_cylinders (rebuild sample_three DEFAULT_SHIRT_COLOR None SHORT COTTON mounted) = [2, 3]
   \<and> shoulder_caps (rebuild sample_three DEFAULT_SHIRT_COLOR None SHORT COTTON mounted) = []
   \<and> args (geometry_of (rebuild sample_three DEFAULT_SHIRT_COLOR None SHORT COTTON mounted) 2)
       = [Num 0.22, Num 0.2, Num 0.6, Num 32]
   \<and> args (geometry_of (rebuild sample_three DEFAULT_SHIRT_COLOR None LONG COTTON mounted) 3)
       = [Num 0.22, Num 0.15, Num 1.6, Num 32]
   \<and> shoulder_caps (rebuild sample_three DEFAULT_SHIRT_COLOR None SLEEVELESS COTTON mounted) = [2, 3]
   \<and> sleeve_cylinders (rebuild sample_three DEFAULT_SHIRT_COLOR None SLEEVELESS COTTON mounted) = []
   \<and> geometry_class (geometry_of (rebuild sample_three DEFAULT_SHIRT_COLOR None SLEEVELESS COTTON mounted) 2)
       = SphereGeometry"
proof -
  have h: "shirtGroupRef mounted \<noteq> None" and g: "shirtGroupRef mounted = Some []"
    and e: "meshes mounted = []"
    by (simp_all add: mounted_def)
  have s: "sleeve_cylinders (rebuild sample_three DEFAULT_SHIRT_COLOR None sl COTTON mounted)
      = (if sl = SLEEVELESS then [] else [2, 3])"
    "shoulder_caps (rebuild sample_three DEFAULT_SHIRT_COLOR None sl COTTON mounted)
      = (if sl = SLEEVELESS then [2, 3] else [])" for sl
    by (simp_all add: sleeve_cylinders_def shoulder_caps_def rebuild_children_explicit [OF g]
        rebuild_meshes_explicit [OF g] e new_Mesh_def eval_nat_numeral)
  show ?thesis
    using h
      one_sleeve_configuration [OF h, where sl = SHORT and lib = sample_three
        and c = DEFAULT_SHIRT_COLOR and t = None and f = COTTON]
      one_sleeve_configuration [OF h, where sl = LONG and lib = sample_three
        and c = DEFAULT_SHIRT_COLOR and t = None and f = COTTON]
      one_sleeve_configuration [OF h, where sl = SLEEVELESS and lib = sample_three
        and c = DEFAULT_SHIRT_COLOR and t = None and f = COTTON]
    by (simp add: s)
qed

text \<open>
  C3. The material parameters derived from the fabric are those of the table: cotton
  0.9 and 0.0 (the default branch), performance poly 0.5 and 0.1, silk blend 0.3 and 0.2;
  and every part of the rebuilt mesh carries a material with the pair of its fabric.
\<close>

theorem fabric_material_table:
  "fabric_parameters COTTON = (0.9, 0.0)
   \<and> fabric_parameters POLYESTER = (0.5, 0.1)
   \<and> fabric_parameters SILK = (0.3, 0.2)
   \<and> (shirtGroupRef v \<noteq> None \<longrightarrow>
        (\<forall>child \<in> set (children_of (rebuild lib c t sl f v)).
           roughness (material_of (rebuild lib c t sl f v) child) = fst (fabric_parameters f)
           \<and> metalness (material_of (rebuild lib c t sl f v) child) = snd (fabric_parameters f)))"
proof -
  have "\<forall>child \<in> set (children_of (rebuild lib c t sl f v)).
           roughness (material_of (rebuild lib c t sl f v) child) = fst (fabric_parameters f)
           \<and> metalness (material_of (rebuild lib c t sl f v) child) = snd (fabric_parameters f)"
    if ch: "shirtGroupRef v = Some ch" for ch
    by (simp add: material_of_def rebuild_children_explicit [OF ch] rebuild_meshes_explicit [OF ch]
        rebuild_materials [OF ch] new_Mesh_def nth_append)
  then show ?thesis
    by (auto simp add: fabric_parameters_def)
qed

theorem fabric_material_table_witness:
  "shirtGroupRef mounted \<noteq> None
   \<and> children_of (rebuild sample_three DEFAULT_SHIRT_COLOR None SHORT SILK mounted) = [0, 1, 2, 3, 4]
   \<and> roughness (material_of (rebuild sample_three DEFAULT_SHIRT_COLOR None SHORT SILK mounted) 0) = 0.3
   \<and> metalness (material_of (rebuild sample_three DEFAULT_SHIRT_COLOR None SHORT SILK mounted) 0) = 0.2
   \<and> roughness (material_of (rebuild sample_three DEFAULT_SHIRT_COLOR None SHORT SILK mounted) 3) = 0.3
   \<and> metalness (material_of (rebuild sample_three DEFAULT_SHIRT_COLOR None SHORT SILK mounted) 3) = 0.2"
proof -
  have h: "shirtGroupRef mounted \<noteq> None" and g: "shirtGroupRef mounted = Some []"
    and e: "meshes mounted = []"
    by (simp_all add: mounted_def)
  have ch: "children_of (rebuild sample_three DEFAULT_SHIRT_COLOR None SHORT SILK mounted)
      = [0, 1, 2, 3, 4]"
    by (simp add: rebuild_children_explicit [OF g] e eval_nat_numeral)
  show ?thesis
    using h fabric_material_table [where v = mounted and lib = sample_three
        and c = DEFAULT_SHIRT_COLOR and t = None and sl = SHORT and f = SILK]
    by (simp add: ch)
qed

section \<open>UV coordinates of the print surface\<close>

declare uv_loop.simps [simp del]

lemma uv_loop_eq:
  "length uv = length pos \<Longrightarrow>
   uv_loop i pos uv =
     take i uv @ map (\<lambda>p. (fround (dbl (dbl (getX p / dbl 0.82) + 0.5)),
                            fround (dbl (dbl (getY p / dbl 0.7) + 0.5)))) (drop i pos)"
proof (induction i pos uv rule: uv_loop.induct)
  case (1 i pos uv)
  show ?case
  proof (cases "i < length pos")
    case True
    have "uv_loop i pos uv =
        uv_loop (i + 1) pos (uv[i := (fround (dbl (dbl (getX (pos ! i) / dbl 0.82) + 0.5)),
                                     fround (dbl (dbl (getY (pos ! i) / dbl 0.7) + 0.5)))])"
      using True by (subst uv_loop.simps) (simp add: Let_def setXY_def)
    also have "\<dots> =
        take (i + 1) (uv[i := (fround (dbl (dbl (getX (pos ! i) / dbl 0.82) + 0.5)),
                              fround (dbl (dbl (getY (pos ! i) / dbl 0.7) + 0.5)))])
        @ map (\<lambda>p. (fround (dbl (dbl (getX p / dbl 0.82) + 0.5)),
                     fround (dbl (dbl (getY p / dbl 0.7) + 0.5)))) (drop (i + 1) pos)"
      using True "1.prems" "1.IH" [OF True refl refl refl refl] by (simp add: setXY_def)
    also have "\<dots> =
        take i uv @ map (\<lambda>p. (fround (dbl (dbl (getX p / dbl 0.82) + 0.5)),
                               fround (dbl (dbl (getY p / dbl 0.7) + 0.5)))) (drop i pos)"
      using True "1.prems"
      by (simp add: take_Suc_conv_app_nth Cons_nth_drop_Suc [symmetric])
    finally show ?thesis .
  next
    case False
    then show ?thesis
      using "1.prems" by (subst uv_loop.simps) simp
  qed
qed

lemma uv_loop_map:
  "length uv = length pos \<Longrightarrow>
   uv_loop 0 pos uv =
     map (\<lambda>p. (fround (dbl (dbl (getX p / dbl 0.82) + 0.5)),
                fround (dbl (dbl (getY p / dbl 0.7) + 0.5)))) pos"
  by (simp add: uv_loop_eq)

lemma uv_values:
  "fround (dbl (dbl (0 / dbl 0.82) + 0.5)) = 1 / 2"
  "fround (dbl (dbl (11744051 / 33554432 / dbl 0.7) + 0.5)) = 1"
  "fround (dbl (dbl (- 1 / 4 / dbl 0.82) + 0.5)) = 3273603 / 16777216"
  "fround (dbl (dbl (- 1 / 4 / dbl 0.7) + 0.5)) = 9586981 / 67108864"
  "fround (dbl (dbl (13757317 / 33554432 / dbl 0.82) + 0.5)) = 1"
  "fround (dbl (dbl (0 / dbl 0.7) + 0.5)) = 1 / 2"
  by code_simp+

lemma sample_uv_values:
  "map (\<lambda>p. (fround (dbl (dbl (getX p / dbl 0.82) + 0.5)),
              fround (dbl (dbl (getY p / dbl 0.7) + 0.5))))
     [(0, 11744051 / 33554432, 9395241 / 16777216), (- 1 / 4, - 1 / 4, 1 / 2),
      (13757317 / 33554432, 0, 3 / 8)]
   = [(1 / 2, 1), (3273603 / 16777216, 9586981 / 67108864), (1, 1 / 2)]"
  by (simp only: list.map getX_def getY_def fst_conv snd_conv uv_values)

lemma sample_viewer_print_geometry:
  "printMeshRef sample_viewer = Some 4"
  "posAttribute (geometry_of sample_viewer 4)
     = [(0, 11744051 / 33554432, 9395241 / 16777216), (- 1 / 4, - 1 / 4, 1 / 2),
        (13757317 / 33554432, 0, 3 / 8)]"
  "uvAttribute (geometry_of sample_viewer 4)
     = [(1 / 2, 1), (3273603 / 16777216, 9586981 / 67108864), (1, 1 / 2)]"
proof -
  have g: "shirtGroupRef mounted = Some []" and m: "meshes mounted = []"
    and e: "geometries mounted = []" "materials mounted = []"
    by (simp_all add: mounted_def)
  show "printMeshRef sample_viewer = Some 4"
    unfolding sample_viewer_def by (simp add: rebuild_printMeshRef [OF g] m)
  have geo: "geometry_of sample_viewer 4
      = remap_uv (new_geometry sample_three CylinderGeometry print_args)"
    unfolding sample_viewer_def
    by (simp add: geometry_of_def rebuild_meshes_explicit [OF g] rebuild_geometries [OF g] m e
        new_Mesh_def nth_append eval_nat_numeral)
  show "posAttribute (geometry_of sample_viewer 4)
     = [(0, 11744051 / 33554432, 9395241 / 16777216), (- 1 / 4, - 1 / 4, 1 / 2),
        (13757317 / 33554432, 0, 3 / 8)]"
    by (simp add: geo remap_uv_def new_geometry_def sample_three_def)
  show "uvAttribute (geometry_of sample_viewer 4)
     = [(1 / 2, 1), (3273603 / 16777216, 9586981 / 67108864), (1, 1 / 2)]"
    using sample_uv_values
    by (simp add: geo remap_uv_def new_geometry_def sample_three_def uv_loop_map)
qed

text \<open>
  C2, as stated, fails: the values assigned are not exactly \<open>x / 0.82 + 0.5\<close> and
  \<open>y / 0.7 + 0.5\<close>. On the top edge of the print surface \<open>y\<close> is the single nearest to
  0.35; there \<open>y / 0.7 + 0.5\<close> is \<open>117440511 / 117440512\<close>, and the loop, which computes in
  doubles and stores singles, assigns \<open>v = 1\<close>.
\<close>

theorem decal_uv_exact_counterexample:
  "posAttribute (geometry_of sample_viewer 4) ! 0 = (0, 11744051 / 33554432, 9395241 / 16777216)
   \<and> uvAttribute (geometry_of sample_viewer 4) ! 0 = (1 / 2, 1)
   \<and> getY (posAttribute (geometry_of sample_viewer 4) ! 0) / 0.7 + 0.5 = 117440511 / 117440512
   \<and> snd (uvAttribute (geometry_of sample_viewer 4) ! 0)
       \<noteq> getY (posAttribute (geometry_of sample_viewer 4) ! 0) / 0.7 + 0.5"
  by (simp add: sample_viewer_print_geometry getY_def)

text \<open>
  C2, amended. After a rebuild the print geometry keeps the vertex positions the library
  generated (the depth-flattening scale is a property of the mesh, not of the vertices),
  and the UV pair of every vertex is \<open>x / 0.82 + 0.5\<close> and \<open>y / 0.7 + 0.5\<close> for the \<open>x\<close>
  and \<open>y\<close> of that vertex, each evaluated in double arithmetic (the quotient rounded, then
  the sum rounded) and rounded to a single when it is stored. The result depends on the
  positions only: running the loop again, from any UV buffer of the same length, gives
  the same values.
\<close>

theorem decal_uv_from_position:
  assumes "shirtGroupRef v \<noteq> None"
    and "length (snd (buffers lib CylinderGeometry print_args))
         = length (fst (buffers lib CylinderGeometry print_args))"
  shows "case printMeshRef (rebuild lib c t sl f v) of
           None \<Rightarrow> False
         | Some p \<Rightarrow>
             posAttribute (geometry_of (rebuild lib c t sl f v) p)
               = fst (buffers lib CylinderGeometry print_args)
             \<and> uvAttribute (geometry_of (rebuild lib c t sl f v) p)
               = map (\<lambda>q. (fround (dbl (dbl (getX q / dbl 0.82) + 0.5)),
                            fround (dbl (dbl (getY q / dbl 0.7) + 0.5))))
                   (posAttribute (geometry_of (rebuild lib c t sl f v) p))
             \<and> (\<forall>uv. length uv = length (posAttribute (geometry_of (rebuild lib c t sl f v) p)) \<longrightarrow>
                   uv_loop 0 (posAttribute (geometry_of (rebuild lib c t sl f v) p)) uv
                     = uvAttribute (geometry_of (rebuild lib c t sl f v) p))
             \<and> scale (meshes (rebuild lib c t sl f v) ! p) = (1, 1, 0.5)"
proof -
  from assms(1) obtain ch where ch: "shirtGroupRef v = Some ch"
    by auto
  show ?thesis
    using assms(2)
    by (simp add: rebuild_printMeshRef [OF ch] geometry_of_def rebuild_meshes_explicit [OF ch]
        rebuild_geometries [OF ch] new_Mesh_def new_geometry_def remap_uv_def nth_append
        uv_loop_map)
qed

theorem decal_uv_from_position_witness:
  "shirtGroupRef mounted \<noteq> None
   \<and> length (snd (buffers sample_three CylinderGeometry print_args))
       = length (fst (buffers sample_three CylinderGeometry print_args))
   \<and> printMeshRef sample_viewer = Some 4
   \<and> posAttribute (geometry_of sample_viewer 4)
       = [(0, 11744051 / 33554432, 9395241 / 16777216), (- 1 / 4, - 1 / 4, 1 / 2),
          (13757317 / 33554432, 0, 3 / 8)]
   \<and> uvAttribute (geometry_of sample_viewer 4)
       = [(1 / 2, 1), (3273603 / 16777216, 9586981 / 67108864), (1, 1 / 2)]
   \<and> uv_loop 0 (posAttribute (geometry_of sample_viewer 4)) [(7, 7), (8, 8), (9, 9)]
       = [(1 / 2, 1), (3273603 / 16777216, 9586981 / 67108864), (1, 1 / 2)]
   \<and> scale (meshes sample_viewer ! 4) = (1, 1, 0.5)"
proof -
  have h: "shirtGroupRef mounted \<noteq> None"
    by (simp add: mounted_def)
  have b: "length (snd (buffers sample_three CylinderGeometry print_args))
       = length (fst (buffers sample_three CylinderGeometry print_args))"
    by (simp add: sample_three_def)
  have g: "shirtGroupRef mounted = Some []" and m: "meshes mounted = []"
    by (simp_all add: mounted_def)
  have p: "printMeshRef sample_viewer = Some 4"
    unfolding sample_viewer_def by (simp add: rebuild_printMeshRef [OF g] m)
  have all: "posAttribute (geometry_of sample_viewer 4)
        = fst (buffers sample_three CylinderGeometry print_args)
      \<and> uvAttribute (geometry_of sample_viewer 4)
        = map (\<lambda>q. (fround (dbl (dbl (getX q / dbl 0.82) + 0.5)),
                     fround (dbl (dbl (getY q / dbl 0.7) + 0.5))))
            (posAttribute (geometry_of sample_viewer 4))
      \<and> (\<forall>uv. length uv = length (posAttribute (geometry_of sample_viewer 4)) \<longrightarrow>
            uv_loop 0 (posAttribute (geometry_of sample_viewer 4)) uv
              = uvAttribute (geometry_of sample_viewer 4))
      \<and> scale (meshes sample_viewer ! 4) = (1, 1, 0.5)"
    using decal_uv_from_position [OF h b, where c = DEFAULT_SHIRT_COLOR and t = None
        and sl = SHORT and f = COTTON]
    unfolding sample_viewer_def [symmetric] p option.case .
  then have pos: "posAttribute (geometry_of sample_viewer 4)
      = [(0, 11744051 / 33554432, 9395241 / 16777216), (- 1 / 4, - 1 / 4, 1 / 2),
         (13757317 / 33554432, 0, 3 / 8)]"
    by (simp add: sample_three_def)
  from all have "uvAttribute (geometry_of sample_viewer 4)
      = map (\<lambda>q. (fround (dbl (dbl (getX q / dbl 0.82) + 0.5)),
                   fround (dbl (dbl (getY q / dbl 0.7) + 0.5))))
          (posAttribute (geometry_of sample_viewer 4))"
    by blast
  then have uv: "uvAttribute (geometry_of sample_viewer 4)
      = [(1 / 2, 1), (3273603 / 16777216, 9586981 / 67108864), (1, 1 / 2)]"
    unfolding pos sample_uv_values .
  from all have "length ([(7, 7), (8, 8), (9, 9)] :: vec2 list)
        = length (posAttribute (geometry_of sample_viewer 4)) \<longrightarrow>
      uv_loop 0 (posAttribute (geometry_of sample_viewer 4)) [(7, 7), (8, 8), (9, 9)]
        = uvAttribute (geometry_of sample_viewer 4)"
    by blast
  then have again: "uv_loop 0 (posAttribute (geometry_of sample_viewer 4)) [(7, 7), (8, 8), (9, 9)]
      = [(1 / 2, 1), (3273603 / 16777216, 9586981 / 67108864), (1, 1 / 2)]"
    by (simp add: pos uv)
  from all have "scale (meshes sample_viewer ! 4) = (1, 1, 0.5)"
    by simp
  with h b p pos uv again show ?thesis
    by simp
qed

section \<open>The texture binder\<close>

lemma nth_list_update_any:
  "xs[j := y] ! i = (if i = j \<and> j < length xs then y else xs ! i)"
  by (cases "j < length xs") (auto simp add: nth_list_update_if list_update_beyond)

lemma same_but_binding_refl [simp]: "same_but_binding m m"
  by (simp add: same_but_binding_def)

lemma clear_map_fields [simp]:
  "meshes (clear_map m w) = meshes w"
  "geometries (clear_map m w) = geometries w"
  "shirtGroupRef (clear_map m w) = shirtGroupRef w"
  "printMeshRef (clear_map m w) = printMeshRef w"
  "loads (clear_map m w) = loads w"
  "length (materials (clear_map m w)) = length (materials w)"
  by (simp_all add: clear_map_def)

lemma onLoad_fields [simp]:
  "meshes (onLoad m tex w) = meshes w"
  "geometries (onLoad m tex w) = geometries w"
  "shirtGroupRef (onLoad m tex w) = shirtGroupRef w"
  "printMeshRef (onLoad m tex w) = printMeshRef w"
  "loads (onLoad m tex w) = loads w"
  "length (materials (onLoad m tex w)) = length (materials w)"
  by (simp_all add: onLoad_def)

lemma material_of_clear_map:
  "material (meshes w ! p) < length (materials w) \<Longrightarrow>
   material_of (clear_map (material (meshes w ! p)) w) p
     = (material_of w p)\<lparr>opacity := 0, map_tex := None, needsUpdate := True\<rparr>"
  by (simp add: material_of_def clear_map_def)

lemma material_of_onLoad:
  "material (meshes w ! p) < length (materials w) \<Longrightarrow>
   material_of (onLoad (material (meshes w ! p)) tex w) p
     = (material_of w p)
         \<lparr>opacity := 1, map_tex := Some (tex\<lparr>colorSpace := SRGBColorSpace, flipY := True\<rparr>),
          needsUpdate := True\<rparr>"
  by (simp add: material_of_def onLoad_def)

lemma texture_effect_clears:
  "printMeshRef w = Some p \<Longrightarrow> \<not> truthy t \<Longrightarrow>
   texture_effect t w = clear_map (material (meshes w ! p)) w"
  by (simp add: texture_effect_def updateTexture_def Let_def)

lemma texture_effect_starts_load:
  "printMeshRef w = Some p \<Longrightarrow> url \<noteq> [] \<Longrightarrow>
   texture_effect (Some url) w = w\<lparr>loads := loads w @ [(url, material (meshes w ! p))]\<rparr>"
  by (simp add: texture_effect_def updateTexture_def truthy_def Let_def)

lemma load_settles_newest:
  "load_settles (length (loads w)) (Some tex) (w\<lparr>loads := loads w @ [(url, m)]\<rparr>) = onLoad m tex w"
  by (simp add: load_settles_def onLoad_def Let_def)

lemma updateTexture_frame:
  "same_but_binding (materials w ! i) (materials (updateTexture t m w) ! i)"
  by (cases m; cases "truthy t")
    (auto simp add: updateTexture_def clear_map_def Let_def nth_list_update_any
      same_but_binding_def split: option.splits)

lemma load_settles_frame:
  "same_but_binding (materials w ! i) (materials (load_settles k d w) ! i)"
  by (cases d)
    (auto simp add: load_settles_def onLoad_def Let_def nth_list_update_any same_but_binding_def)

lemma image_updateState:
  "generatedImageBase64 (designState (updateState c u a))
     = or_else (p_generatedImageBase64 u) (generatedImageBase64 (designState a))"
  by (simp add: updateState_def spread_def Let_def)

lemma step_image_not_empty:
  assumes "from_service e" and "generatedImageBase64 (designState a) \<noteq> Some []"
  shows "generatedImageBase64 (designState (step e a)) \<noteq> Some []"
proof (cases e)
  case (GenerateSettles captured res)
  with assms show ?thesis
    by (cases res)
      (simp_all add: handleGenerateArt_settle_def image_updateState or_else_def no_updates_def)
next
  case (RandomIdeaSettles captured res)
  with assms show ?thesis
    by (cases res)
      (simp_all add: handleAutoDescription_settle_def image_updateState or_else_def no_updates_def)
next
  case (EnhanceSettles captured res)
  with assms show ?thesis
    by (cases res)
      (simp_all add: handleEnhancePrompt_settle_def image_updateState or_else_def no_updates_def)
next
  case (ImageChosen captured imageData)
  with assms show ?thesis
    by (cases imageData)
      (simp_all add: handleUploadImage_def image_updateState or_else_def no_updates_def truthy_def)
qed (use assms in \<open>simp_all add: image_updateState or_else_def no_updates_def qty_minus_def
    qty_plus_def click_generate_def handleGenerateArt_begin_def handleAutoDescription_begin_def
    handleEnhancePrompt_begin_def Let_def\<close>)

lemma designTexture_never_empty:
  "\<forall>e \<in> set es. from_service e \<Longrightarrow>
   generatedImageBase64 (designState a) \<noteq> Some [] \<Longrightarrow>
   generatedImageBase64 (designState (run es a)) \<noteq> Some []"
proof (induction es arbitrary: a)
  case Nil
  then show ?case by simp
next
  case (Cons e es)
  then have "generatedImageBase64 (designState (step e a)) \<noteq> Some []"
    by (simp add: step_image_not_empty)
  with Cons show ?case
    by simp
qed

lemma designTexture_of_session:
  "\<forall>e \<in> set es. from_service e \<Longrightarrow>
   generatedImageBase64 (designState (run es initial_app)) \<noteq> Some []"
  by (rule designTexture_never_empty) (simp_all add: initial_app_def)

text \<open>
  C5. An image is a non-empty URL: the application passes \<open>null\<close> or a data URL (a falsy
  upload is stored as \<open>null\<close>, and the image service returns a URL that starts with
  \<^verbatim>\<open>data:image/png;base64,\<close>; see \<open>designTexture_of_session\<close>). For a mesh whose references are valid: given no image
  (\<open>null\<close>; the empty string is treated alike) the binder clears the material's map, sets
  its opacity to 0 and marks it for update, and starts no load. Given an image it leaves
  the materials as they are and starts a load; when that load completes with the decoded
  texture, the material's map is that texture with sRGB colour space, its opacity is 1 and
  it is marked for update; when the decoding fails nothing changes.
\<close>

theorem updateTexture_binds_or_clears:
  assumes "m < length (meshes v)" and "material (meshes v ! m) < length (materials v)"
  shows "(texUrl = None \<or> texUrl = Some [] \<longrightarrow>
            map_tex (material_of (updateTexture texUrl (Some m) v) m) = None
            \<and> opacity (material_of (updateTexture texUrl (Some m) v) m) = 0
            \<and> needsUpdate (material_of (updateTexture texUrl (Some m) v) m)
            \<and> loads (updateTexture texUrl (Some m) v) = loads v)
       \<and> (texUrl = Some url \<and> url \<noteq> [] \<longrightarrow>
            materials (updateTexture texUrl (Some m) v) = materials v
            \<and> loads (updateTexture texUrl (Some m) v) = loads v @ [(url, material (meshes v ! m))]
            \<and> load_settles (length (loads v)) None (updateTexture texUrl (Some m) v) = v
            \<and> map_tex (material_of
                 (load_settles (length (loads v)) (Some tex) (updateTexture texUrl (Some m) v)) m)
                = Some (tex\<lparr>colorSpace := SRGBColorSpace, flipY := True\<rparr>)
            \<and> opacity (material_of
                 (load_settles (length (loads v)) (Some tex) (updateTexture texUrl (Some m) v)) m) = 1
            \<and> needsUpdate (material_of
                 (load_settles (length (loads v)) (Some tex) (updateTexture texUrl (Some m) v)) m))"
  using assms
  by (cases texUrl)
    (auto simp add: updateTexture_def clear_map_def load_settles_def onLoad_def material_of_def
      truthy_def Let_def)

theorem updateTexture_binds_or_clears_witness:
  "(4::nat) < length (meshes sample_viewer)
   \<and> material (meshes sample_viewer ! 4) < length (materials sample_viewer)
   \<and> opacity (material_of (updateTexture None (Some 4) sample_viewer) 4) = 0
   \<and> map_tex (material_of (updateTexture None (Some 4) sample_viewer) 4) = None
   \<and> materials (updateTexture (Some sample_url) (Some 4) sample_viewer) = materials sample_viewer
   \<and> opacity (material_of
        (load_settles (length (loads sample_viewer)) (Some sample_texture)
           (updateTexture (Some sample_url) (Some 4) sample_viewer)) 4) = 1
   \<and> map_tex (material_of
        (load_settles (length (loads sample_viewer)) (Some sample_texture)
           (updateTexture (Some sample_url) (Some 4) sample_viewer)) 4)
       = Some \<lparr>tex_image = sample_url, colorSpace = SRGBColorSpace, flipY = True\<rparr>"
proof -
  have g: "shirtGroupRef mounted = Some []"
    and e: "meshes mounted = []" "materials mounted = []"
    by (simp_all add: mounted_def)
  have h1: "4 < length (meshes sample_viewer)"
    by (simp add: sample_viewer_def rebuild_meshes_explicit [OF g] e)
  have h2: "material (meshes sample_viewer ! 4) < length (materials sample_viewer)"
    by (simp add: sample_viewer_def rebuild_meshes_explicit [OF g] rebuild_materials [OF g] e
        new_Mesh_def)
  have u: "sample_url \<noteq> []"
    by (simp add: sample_url_def)
  show ?thesis
    using h1 h2 u
      updateTexture_binds_or_clears [OF h1 h2, where texUrl = None]
      updateTexture_binds_or_clears [OF h1 h2, where texUrl = "Some sample_url"
        and url = sample_url and tex = sample_texture]
    by (simp add: sample_texture_def)
qed

text \<open>
  C6. After every rebuild (the group exists), whatever the sleeve length, the fabric and
  the artwork, the group holds exactly one print surface, the mesh \<open>printMeshRef\<close>
  points to; its material has opacity 0, is transparent and double-sided, does not write
  depth, tests depth, and has a negative polygon offset. Binding or clearing a texture,
  and the completion of a load, never add or remove a part: they leave the children of
  the group, the meshes and the print surface among them as they are, and change no
  material except, at most, in its map, its opacity and its update mark. What they do
  change is the opacity of the print surface's material: after the rebuild it is 0 until
  the load of the artwork completes and 1 from then on; clearing the artwork sets it
  back to 0 and removes the map, and the print surface is still there.
\<close>

theorem print_surface_always_present:
  assumes "shirtGroupRef v \<noteq> None"
  shows "length (print_surfaces (rebuild lib c t sl f v)) = 1
       \<and> map Some (print_surfaces (rebuild lib c t sl f v)) = [printMeshRef (rebuild lib c t sl f v)]
       \<and> (\<forall>p \<in> set (print_surfaces (rebuild lib c t sl f v)).
            opacity (material_of (rebuild lib c t sl f v) p) = 0
            \<and> transparent (material_of (rebuild lib c t sl f v) p)
            \<and> side (material_of (rebuild lib c t sl f v) p) = DoubleSide
            \<and> \<not> depthWrite (material_of (rebuild lib c t sl f v) p)
            \<and> depthTest (material_of (rebuild lib c t sl f v) p)
            \<and> polygonOffset (material_of (rebuild lib c t sl f v) p)
            \<and> polygonOffsetFactor (material_of (rebuild lib c t sl f v) p) < 0)
       \<and> print_surfaces (texture_effect t' w) = print_surfaces w
       \<and> children_of (texture_effect t' w) = children_of w
       \<and> print_surfaces (load_settles k d w) = print_surfaces w
       \<and> children_of (load_settles k d w) = children_of w
       \<and> meshes (texture_effect t' w) = meshes w
       \<and> meshes (load_settles k d w) = meshes w
       \<and> length (materials (texture_effect t' w)) = length (materials w)
       \<and> length (materials (load_settles k d w)) = length (materials w)
       \<and> same_but_binding (materials w ! i) (materials (texture_effect t' w) ! i)
       \<and> same_but_binding (materials w ! i) (materials (load_settles k d w) ! i)
       \<and> (\<forall>p \<in> set (print_surfaces (rebuild lib c t sl f v)).
            (t = Some u \<and> u \<noteq> [] \<longrightarrow>
               opacity (material_of
                 (load_settles (length (loads v)) (Some tex) (rebuild lib c t sl f v)) p) = 1)
            \<and> (url \<noteq> [] \<longrightarrow>
               (let bound = texture_effect (Some url) (rebuild lib c t sl f v);
                    shown = load_settles (length (loads (rebuild lib c t sl f v))) (Some tex) bound;
                    hidden = texture_effect None shown
                in opacity (material_of bound p) = 0
                   \<and> opacity (material_of shown p) = 1
                   \<and> map_tex (material_of shown p)
                       = Some (tex\<lparr>colorSpace := SRGBColorSpace, flipY := True\<rparr>)
                   \<and> print_surfaces shown = [p]
                   \<and> opacity (material_of hidden p) = 0
                   \<and> map_tex (material_of hidden p) = None
                   \<and> print_surfaces hidden = [p])))"
proof -
  from assms obtain ch where ch: "shirtGroupRef v = Some ch"
    by auto
  define v' where "v' = rebuild lib c t sl f v"
  define P where "P = Suc (Suc (Suc (Suc (length (meshes v)))))"
  have frame: "print_surfaces (texture_effect t' w) = print_surfaces w"
    "children_of (texture_effect t' w) = children_of w"
    "print_surfaces (load_settles k d w) = print_surfaces w"
    "children_of (load_settles k d w) = children_of w"
    "meshes (texture_effect t' w) = meshes w"
    "meshes (load_settles k d w) = meshes w"
    for t' w k d
    by (simp_all add: print_surfaces_def children_of_def)
  have same: "same_but_binding (materials w ! i) (materials (texture_effect t' w) ! i)"
    "same_but_binding (materials w ! i) (materials (load_settles k d w) ! i)"
    by (simp_all add: texture_effect_def updateTexture_frame load_settles_frame)
  have surf: "print_surfaces v' = [P]"
    and ref: "printMeshRef v' = Some P"
    and mat: "material (meshes v' ! P) = Suc (length (materials v))"
    and len: "length (materials v') = Suc (Suc (length (materials v)))"
    by (simp_all add: v'_def P_def rebuild_print_surfaces [OF ch] rebuild_printMeshRef [OF ch]
        rebuild_meshes_explicit [OF ch] rebuild_materials [OF ch] new_Mesh_def nth_append)
  have valid: "material (meshes v' ! P) < length (materials v')"
    by (simp add: mat len)
  have created: "opacity (material_of v' P) = 0"
    "transparent (material_of v' P)"
    "side (material_of v' P) = DoubleSide"
    "\<not> depthWrite (material_of v' P)"
    "depthTest (material_of v' P)"
    "polygonOffset (material_of v' P)"
    "polygonOffsetFactor (material_of v' P) < 0"
    by (simp_all add: v'_def P_def rebuild_print_material [OF ch])
  have rebound: "opacity (material_of (load_settles (length (loads v)) (Some tex) v') P) = 1"
    if "t = Some u" and "u \<noteq> []"
  proof -
    have "loads v' = loads v @ [(u, Suc (length (materials v)))]"
      using that by (simp add: v'_def rebuild_loads [OF ch])
    then have "loads v' = loads v @ [(u, material (meshes v' ! P))]"
      by (simp add: mat)
    then have "load_settles (length (loads v)) (Some tex) v'
        = onLoad (material (meshes v' ! P)) tex (v'\<lparr>loads := loads v\<rparr>)"
      by (simp add: load_settles_def onLoad_def Let_def)
    moreover have "material_of (onLoad (material (meshes v' ! P)) tex (v'\<lparr>loads := loads v\<rparr>)) P
        = (material_of (v'\<lparr>loads := loads v\<rparr>) P)
            \<lparr>opacity := 1, map_tex := Some (tex\<lparr>colorSpace := SRGBColorSpace, flipY := True\<rparr>),
             needsUpdate := True\<rparr>"
      using valid material_of_onLoad [of "v'\<lparr>loads := loads v\<rparr>" P tex] by simp
    ultimately show ?thesis
      by simp
  qed
  have cycle: "opacity (material_of (texture_effect (Some url) v') P) = 0
      \<and> opacity (material_of
           (load_settles (length (loads v')) (Some tex) (texture_effect (Some url) v')) P) = 1
      \<and> map_tex (material_of
           (load_settles (length (loads v')) (Some tex) (texture_effect (Some url) v')) P)
          = Some (tex\<lparr>colorSpace := SRGBColorSpace, flipY := True\<rparr>)
      \<and> print_surfaces
           (load_settles (length (loads v')) (Some tex) (texture_effect (Some url) v')) = [P]
      \<and> opacity (material_of (texture_effect None
           (load_settles (length (loads v')) (Some tex) (texture_effect (Some url) v'))) P) = 0
      \<and> map_tex (material_of (texture_effect None
           (load_settles (length (loads v')) (Some tex) (texture_effect (Some url) v'))) P) = None
      \<and> print_surfaces (texture_effect None
           (load_settles (length (loads v')) (Some tex) (texture_effect (Some url) v'))) = [P]"
    if url: "url \<noteq> []"
  proof -
    have bound: "texture_effect (Some url) v' = v'\<lparr>loads := loads v' @ [(url, material (meshes v' ! P))]\<rparr>"
      by (rule texture_effect_starts_load [OF ref url])
    have shown: "load_settles (length (loads v')) (Some tex) (texture_effect (Some url) v')
        = onLoad (material (meshes v' ! P)) tex v'"
      by (simp only: bound load_settles_newest)
    have hidden: "texture_effect None (onLoad (material (meshes v' ! P)) tex v')
        = clear_map (material (meshes v' ! P)) (onLoad (material (meshes v' ! P)) tex v')"
      using texture_effect_clears [of "onLoad (material (meshes v' ! P)) tex v'" P None] ref
      by (simp add: truthy_def)
    have m1: "material_of (onLoad (material (meshes v' ! P)) tex v') P
        = (material_of v' P)
            \<lparr>opacity := 1, map_tex := Some (tex\<lparr>colorSpace := SRGBColorSpace, flipY := True\<rparr>),
             needsUpdate := True\<rparr>"
      by (rule material_of_onLoad [OF valid])
    have m2: "material_of (clear_map (material (meshes v' ! P))
          (onLoad (material (meshes v' ! P)) tex v')) P
        = (material_of (onLoad (material (meshes v' ! P)) tex v') P)
            \<lparr>opacity := 0, map_tex := None, needsUpdate := True\<rparr>"
      using material_of_clear_map [of "onLoad (material (meshes v' ! P)) tex v'" P] valid
      by simp
    have s1: "print_surfaces (onLoad (material (meshes v' ! P)) tex v') = [P]"
      "print_surfaces (clear_map (material (meshes v' ! P))
          (onLoad (material (meshes v' ! P)) tex v')) = [P]"
      using surf by (simp_all add: print_surfaces_def children_of_def)
    have b0: "opacity (material_of (texture_effect (Some url) v') P) = 0"
      using created(1) by (simp add: bound material_of_def)
    show ?thesis
      by (simp add: b0 shown hidden m1 m2 s1)
  qed
  show ?thesis
    unfolding v'_def [symmetric]
    using frame same created rebound cycle
    by (simp add: surf ref Let_def)
qed

theorem print_surface_always_present_witness:
  "shirtGroupRef mounted \<noteq> None
   \<and> sample_url \<noteq> []
   \<and> print_surfaces (rebuild sample_three DEFAULT_SHIRT_COLOR (Some sample_url) LONG SILK mounted) = [4]
   \<and> opacity (material_of (rebuild sample_three DEFAULT_SHIRT_COLOR (Some sample_url) LONG SILK mounted) 4) = 0
   \<and> opacity (material_of (load_settles (length (loads mounted)) (Some sample_texture)
        (rebuild sample_three DEFAULT_SHIRT_COLOR (Some sample_url) LONG SILK mounted)) 4) = 1
   \<and> opacity (material_of (load_settles (length (loads sample_viewer)) (Some sample_texture)
        (texture_effect (Some sample_url) sample_viewer)) 4) = 1
   \<and> opacity (material_of (texture_effect None
        (load_settles (length (loads sample_viewer)) (Some sample_texture)
           (texture_effect (Some sample_url) sample_viewer))) 4) = 0
   \<and> print_surfaces (texture_effect None
        (load_settles (length (loads sample_viewer)) (Some sample_texture)
           (texture_effect (Some sample_url) sample_viewer))) = [4]"
proof -
  have h: "shirtGroupRef mounted \<noteq> None" and g: "shirtGroupRef mounted = Some []"
    and e: "meshes mounted = []"
    by (simp_all add: mounted_def)
  have u: "sample_url \<noteq> []"
    by (simp add: sample_url_def)
  have s: "print_surfaces (rebuild sample_three DEFAULT_SHIRT_COLOR t sl f mounted) = [4]" for t sl f
    by (simp add: rebuild_print_surfaces [OF g] e eval_nat_numeral)
  have s': "print_surfaces sample_viewer = [4]"
    by (simp add: sample_viewer_def s)
  show ?thesis
    using h u
      print_surface_always_present [OF h, where lib = sample_three and c = DEFAULT_SHIRT_COLOR
        and t = "Some sample_url" and sl = LONG and f = SILK and t' = None and w = sample_viewer
        and k = 0 and d = None and i = 0 and u = sample_url and url = sample_url
        and tex = sample_texture]
      print_surface_always_present [OF h, where lib = sample_three and c = DEFAULT_SHIRT_COLOR
        and t = None and sl = SHORT and f = COTTON and t' = None and w = sample_viewer
        and k = 0 and d = None and i = 0 and u = sample_url and url = sample_url
        and tex = sample_texture]
    unfolding sample_viewer_def [symmetric]
    by (simp add: s s' Let_def)
qed

section \<open>Colour changes\<close>

text \<open>
  C9. On a well-formed viewer (the mounted viewer is well formed, every rebuild makes
  it so, and the colour effect, the texture binder and the completion of a load keep it
  so), the colour effect
  leaves the geometries, the meshes, the children of the group and the outstanding loads
  as they are; the material of every child other than the print mesh is the one it was
  with only its colour set to the new colour; and the material of the print mesh (its map,
  opacity, colour and every other property) is unchanged.
\<close>

theorem color_effect_frame:
  assumes "well_formed v"
  shows "geometries (color_effect c v) = geometries v
       \<and> meshes (color_effect c v) = meshes v
       \<and> shirtGroupRef (color_effect c v) = shirtGroupRef v
       \<and> printMeshRef (color_effect c v) = printMeshRef v
       \<and> loads (color_effect c v) = loads v
       \<and> length (materials (color_effect c v)) = length (materials v)
       \<and> (\<forall>child \<in> set (children_of v).
            Some child \<noteq> printMeshRef v \<longrightarrow>
            material_of (color_effect c v) child = (material_of v child)\<lparr>color := c\<rparr>)
       \<and> (case printMeshRef v of
            None \<Rightarrow> True
          | Some p \<Rightarrow> material_of (color_effect c v) p = material_of v p)"
proof (cases "shirtGroupRef v")
  case None
  then show ?thesis
    by (simp add: color_effect_def children_of_def split: option.splits)
next
  case (Some ch)
  have eq: "color_effect c v = color_children c ch v"
    by (simp add: color_effect_def Some)
  have ch: "children_of v = ch"
    by (simp add: children_of_def Some)
  have others: "material_of (color_effect c v) child = (material_of v child)\<lparr>color := c\<rparr>"
    if "child \<in> set ch" and "Some child \<noteq> printMeshRef v" for child
  proof -
    from assms that have "material (meshes v ! child) < length (materials v)"
      by (simp add: well_formed_def ch)
    then show ?thesis
      using that by (auto simp add: material_of_def eq color_children_materials)
  qed
  have decal: "material_of (color_effect c v) p = material_of v p" if "printMeshRef v = Some p" for p
  proof -
    from assms that have "material (meshes v ! p) < length (materials v)"
      and "\<forall>child \<in> set ch. child \<noteq> p \<longrightarrow> material (meshes v ! child) \<noteq> material (meshes v ! p)"
      by (simp_all add: well_formed_def ch)
    then show ?thesis
      using that by (auto simp add: material_of_def eq color_children_materials)
  qed
  show ?thesis
    using others decal by (simp add: eq ch split: option.splits)
qed

theorem color_effect_frame_witness:
  "well_formed sample_viewer
   \<and> geometries (color_effect (js ''#ef4444'') sample_viewer) = geometries sample_viewer
   \<and> meshes (color_effect (js ''#ef4444'') sample_viewer) = meshes sample_viewer
   \<and> color (material_of (color_effect (js ''#ef4444'') sample_viewer) 0) = js ''#ef4444''
   \<and> material_of (color_effect (js ''#ef4444'') sample_viewer) 4 = material_of sample_viewer 4"
proof -
  have g: "shirtGroupRef mounted = Some []" and e: "meshes mounted = []"
    by (simp_all add: mounted_def)
  have w: "well_formed sample_viewer"
    unfolding sample_viewer_def by (rule rebuild_well_formed [OF g])
  have ch: "children_of sample_viewer = [0, 1, 2, 3, 4]"
    and p: "printMeshRef sample_viewer = Some 4"
    by (simp_all add: sample_viewer_def rebuild_children_explicit [OF g]
        rebuild_printMeshRef [OF g] e eval_nat_numeral)
  show ?thesis
    using w color_effect_frame [OF w, of "js ''#ef4444''"]
    by (simp add: ch p)
qed

end
